theory Spec2Isabelle
  imports Complex_Main
begin

section \<open>Values shared by the notebooks\<close>

text \<open>
  The notebooks are driver scripts over numpy arrays and toolkit objects. Coordinates are
  rows of an \<open>N \<times> 3\<close> array; floating-point numbers are idealised as \<open>real\<close>.
  Exceptions of the Python code are values of \<open>py_error\<close>.
\<close>

datatype py_error =
    NameError string
  | AttributeError string
  | KeyError
  | IndexError
  | ValueError
  | ExternalError string

type_synonym vec3 = "real \<times> real \<times> real"

type_synonym mat3 = "vec3 \<times> vec3 \<times> vec3"

definition vec_add :: "vec3 \<Rightarrow> vec3 \<Rightarrow> vec3" where
  "vec_add p q = (case p of (p0, p1, p2) \<Rightarrow> case q of (q0, q1, q2) \<Rightarrow> (p0 + q0, p1 + q1, p2 + q2))"

definition vec_sub :: "vec3 \<Rightarrow> vec3 \<Rightarrow> vec3" where
  "vec_sub p q = (case p of (p0, p1, p2) \<Rightarrow> case q of (q0, q1, q2) \<Rightarrow> (p0 - q0, p1 - q1, p2 - q2))"

definition col2 :: "vec3 \<Rightarrow> real" where
  "col2 p = (case p of (p0, p1, p2) \<Rightarrow> p2)"

section \<open>Membrane docking: the objective function\<close>

text \<open>
  \<^verbatim>\<open>spin_at_ori @ M\<close>: every row of the \<open>N \<times> 3\<close> array is multiplied from the right by
  the \<open>3 \<times> 3\<close> matrix \<open>M\<close> (given by its rows).
\<close>

definition row_matmul :: "vec3 \<Rightarrow> mat3 \<Rightarrow> vec3" where
  "row_matmul p M =
     (case p of (p0, p1, p2) \<Rightarrow>
      case M of ((a00, a01, a02), (a10, a11, a12), (a20, a21, a22)) \<Rightarrow>
        (p0 * a00 + p1 * a10 + p2 * a20,
         p0 * a01 + p1 * a11 + p2 * a21,
         p0 * a02 + p1 * a12 + p2 * a22))"

definition matmul :: "vec3 list \<Rightarrow> mat3 \<Rightarrow> vec3 list" where
  "matmul A M = map (\<lambda>p. row_matmul p M) A"

text \<open>
  Elementwise subtraction of two one-dimensional arrays with numpy's broadcasting:
  equal lengths, or one operand of length one; any other pair of shapes raises.
\<close>

definition np_sub :: "real list \<Rightarrow> real list \<Rightarrow> py_error + real list" where
  "np_sub xs ys =
     (if length xs = length ys then Inr (map2 (-) xs ys)
      else if length xs = 1 then Inr (map (\<lambda>y. hd xs - y) ys)
      else if length ys = 1 then Inr (map (\<lambda>x. x - hd ys) xs)
      else Inl ValueError)"

text \<open>\<^verbatim>\<open>resid @ resid\<close> on one-dimensional arrays: the inner product.\<close>

definition np_dot :: "real list \<Rightarrow> real list \<Rightarrow> py_error + real" where
  "np_dot xs ys =
     (if length xs = length ys then Inr (sum_list (map2 (*) xs ys)) else Inl ValueError)"

text \<open>
  \<^verbatim>\<open>spin_at_ori = spin_centroids - np.mean(spin_centroids, axis=0)\<close>
\<close>

definition mean_axis0 :: "vec3 list \<Rightarrow> vec3" where
  "mean_axis0 ps =
     (sum_list (map fst ps) / real (length ps),
      sum_list (map (fst \<circ> snd) ps) / real (length ps),
      sum_list (map (snd \<circ> snd) ps) / real (length ps))"

definition spin_at_ori :: "vec3 list \<Rightarrow> vec3 list" where
  "spin_at_ori spin_centroids = map (\<lambda>p. vec_sub p (mean_axis0 spin_centroids)) spin_centroids"

text \<open>
  \<^verbatim>\<open>objective(par)\<close> of the membrane-docking notebook. The closure variables
  \<^verbatim>\<open>spin_at_ori\<close> and \<^verbatim>\<open>depths\<close> are arguments; \<open>from_euler\<close> stands for scipy's
  \<^verbatim>\<open>Rotation.from_euler('xyz', [x, y, z]).as_matrix()\<close>, which is not part of the
  repository.
\<close>

definition objective ::
  "(real \<Rightarrow> real \<Rightarrow> real \<Rightarrow> mat3) \<Rightarrow> vec3 list \<Rightarrow> real list \<Rightarrow>
   real \<times> real \<times> real \<times> real \<Rightarrow> py_error + real" where
  "objective from_euler sp_at_ori depths par =
     (case par of (x, y, z, zdepth) \<Rightarrow>
        let M = from_euler x y z;
            spin_coords = map (\<lambda>p. vec_add p (0, 0, zdepth)) (matmul sp_at_ori M)
        in (case np_sub (map col2 spin_coords) depths of
              Inl e \<Rightarrow> Inl e
            | Inr resid \<Rightarrow> np_dot resid resid))"

text \<open>
  The matrix scipy documents for extrinsic rotations about x, then y, then z
  (\<open>R\<^sub>z R\<^sub>y R\<^sub>x\<close>, angles in radians); used to instantiate \<open>from_euler\<close>.
\<close>

definition euler_xyz_matrix :: "real \<Rightarrow> real \<Rightarrow> real \<Rightarrow> mat3" where
  "euler_xyz_matrix x y z =
     ((cos z * cos y, cos z * sin y * sin x - sin z * cos x, cos z * sin y * cos x + sin z * sin x),
      (sin z * cos y, sin z * sin y * sin x + cos z * cos x, sin z * sin y * cos x - cos z * sin x),
      (- sin y, cos y * sin x, cos y * cos x))"

section \<open>OpenMM score function: atom matching and the energy function\<close>

text \<open>
  An atom selection of the toolkit (\<^verbatim>\<open>psel.ix\<close>, \<^verbatim>\<open>psel.positions\<close>) and a rotamer
  ensemble, the ``system'' an energy function is called on. \<^verbatim>\<open>coords\<close> has one entry per
  rotamer, each with one row per atom. The attributes \<^verbatim>\<open>efunc_protein_ix\<close> and
  \<^verbatim>\<open>efunc_residue_ix\<close> are set dynamically: \<open>None\<close> is an absent attribute
  (\<^verbatim>\<open>hasattr\<close> is false); \<^verbatim>\<open>efunc_residue_ix\<close> may hold Python's \<^verbatim>\<open>None\<close>, which is
  \<open>Some None\<close>.
\<close>

record atomgroup =
  ix :: "nat list"
  positions :: "vec3 list"

record rotamer_ensemble =
  site :: int
  selstr :: string
  coords :: "vec3 list list"
  efunc_protein_ix :: "nat list option"
  efunc_residue_ix :: "nat list option option"

text \<open>
  \<^verbatim>\<open>diff = reference.positions[:, None, ...] - sub[None, ...]; diff = diff * diff;
  diff = np.sum(diff, axis=-1)\<close>: the matrix of squared distances, one row per reference
  atom and one column per atom of the rotamer.
\<close>

definition sqdist :: "vec3 \<Rightarrow> vec3 \<Rightarrow> real" where
  "sqdist p q = (case vec_sub p q of (d0, d1, d2) \<Rightarrow> d0 * d0 + d1 * d1 + d2 * d2)"

definition pairwise_sqdist :: "vec3 list \<Rightarrow> vec3 list \<Rightarrow> real list list" where
  "pairwise_sqdist ref sub = map (\<lambda>p. map (\<lambda>q. sqdist p q) sub) ref"

text \<open>\<^verbatim>\<open>diff[arg]\<close> for a pair \<^verbatim>\<open>arg = (a, b)\<close>; an index out of range raises.\<close>

definition mat_at :: "real list list \<Rightarrow> nat \<times> nat \<Rightarrow> py_error + real" where
  "mat_at D ab =
     (case ab of (a, b) \<Rightarrow>
        if a < length D \<and> b < length (D ! a) then Inr (D ! a ! b) else Inl IndexError)"

text \<open>A list comprehension whose element expression may raise.\<close>

fun collect :: "('a \<Rightarrow> py_error + 'b) \<Rightarrow> 'a list \<Rightarrow> py_error + 'b list" where
  "collect f [] = Inr []"
| "collect f (x # xs) =
     (case f x of
        Inl e \<Rightarrow> Inl e
      | Inr y \<Rightarrow> (case collect f xs of Inl e \<Rightarrow> Inl e | Inr ys \<Rightarrow> Inr (y # ys)))"

text \<open>
  \<^verbatim>\<open>score < dmin_score\<close>, where \<^verbatim>\<open>dmin_score\<close> starts as \<^verbatim>\<open>np.inf\<close> (\<open>None\<close>).
\<close>

fun less_than_best :: "real \<Rightarrow> real option \<Rightarrow> bool" where
  "less_than_best score None = True"
| "less_than_best score (Some d) = (score < d)"

text \<open>
  The loop of \<^verbatim>\<open>match_atoms\<close> over the rotamers, with the state
  \<^verbatim>\<open>(dmin_score, dmap)\<close>. \<open>lsa\<close> stands for scipy's \<^verbatim>\<open>linear_sum_assignment\<close>, which
  returns the row and the column indices of an assignment.
\<close>

fun match_loop ::
  "(real list list \<Rightarrow> nat list \<times> nat list) \<Rightarrow> vec3 list \<Rightarrow>
   real option \<times> nat list option \<Rightarrow> vec3 list list \<Rightarrow>
   py_error + (real option \<times> nat list option)" where
  "match_loop lsa ref st [] = Inr st"
| "match_loop lsa ref st (sub # subs) =
     (let diff = pairwise_sqdist ref sub;
          idx = lsa diff
      in case collect (mat_at diff) (zip (fst idx) (snd idx)) of
           Inl e \<Rightarrow> Inl e
         | Inr vals \<Rightarrow>
             (let score = sum_list vals
              in if less_than_best score (fst st)
                 then match_loop lsa ref (Some score, Some (snd idx)) subs
                 else match_loop lsa ref st subs))"

definition match_atoms ::
  "(real list list \<Rightarrow> nat list \<times> nat list) \<Rightarrow> atomgroup \<Rightarrow> rotamer_ensemble \<Rightarrow>
   py_error + nat list option" where
  "match_atoms lsa reference subject =
     (case match_loop lsa (positions reference) (None, None) (coords subject) of
        Inl e \<Rightarrow> Inl e
      | Inr st \<Rightarrow> Inr (snd st))"

text \<open>
  The cost \<^verbatim>\<open>cost[rows, cols].sum()\<close> of an assignment, and what scipy documents of
  \<^verbatim>\<open>linear_sum_assignment\<close> on a square \<open>n \<times> n\<close> cost matrix: the rows are
  \<open>0, \<dots>, n - 1\<close>, the columns are a permutation of them, and no permutation costs less.
\<close>

definition assignment_cost :: "real list list \<Rightarrow> nat list \<Rightarrow> nat list \<Rightarrow> real" where
  "assignment_cost D rows cols = sum_list (map (\<lambda>(a, b). D ! a ! b) (zip rows cols))"

definition is_permutation :: "nat \<Rightarrow> nat list \<Rightarrow> bool" where
  "is_permutation n p = (distinct p \<and> set p = {0..<n})"

definition lsa_contract :: "nat \<Rightarrow> real list list \<Rightarrow> nat list \<times> nat list \<Rightarrow> bool" where
  "lsa_contract n D idx =
     (fst idx = [0..<n] \<and> is_permutation n (snd idx) \<and>
      (\<forall>p. is_permutation n p \<longrightarrow> assignment_cost D (fst idx) (snd idx) \<le> assignment_cost D [0..<n] p))"

text \<open>
  The energy function object: the positions of its protein, the protein's
  \<^verbatim>\<open>select_atoms\<close>, and the potential energy OpenMM reports for a pose
  (\<^verbatim>\<open>setPositions\<close> followed by \<^verbatim>\<open>getState(getEnergy=True).getPotentialEnergy()\<close>).
\<close>

record energy_func =
  protein_positions :: "vec3 list"
  protein_select_atoms :: "string \<Rightarrow> atomgroup"
  potential_energy :: "vec3 list \<Rightarrow> real"

text \<open>
  \<^verbatim>\<open>prepare_system\<close>: the first assignment is made before \<^verbatim>\<open>match_atoms\<close> runs, so it
  stays when \<^verbatim>\<open>match_atoms\<close> raises.
\<close>

definition prepare_system ::
  "(real list list \<Rightarrow> nat list \<times> nat list) \<Rightarrow> energy_func \<Rightarrow> rotamer_ensemble \<Rightarrow>
   rotamer_ensemble \<times> (py_error + unit)" where
  "prepare_system lsa self system =
     (let psel = protein_select_atoms self (selstr system);
          system1 = system\<lparr>efunc_protein_ix := Some (ix psel)\<rparr>
      in case match_atoms lsa psel system1 of
           Inl e \<Rightarrow> (system1, Inl e)
         | Inr dmap \<Rightarrow> (system1\<lparr>efunc_residue_ix := Some dmap\<rparr>, Inr ()))"

text \<open>
  \<^verbatim>\<open>rot[index]\<close>: an index array picks rows and raises out of range; \<^verbatim>\<open>None\<close> adds a
  leading axis of length one, which assignment strips again.
\<close>

definition take_rows :: "vec3 list \<Rightarrow> nat list option \<Rightarrow> py_error + vec3 list" where
  "take_rows rot index =
     (case index of
        None \<Rightarrow> Inr rot
      | Some idx \<Rightarrow>
          if list_all (\<lambda>i. i < length rot) idx then Inr (map (\<lambda>i. rot ! i) idx)
          else Inl IndexError)"

text \<open>The rows of \<open>vals\<close> written at the indices \<open>idx\<close>, in order (a later write wins).\<close>

definition substitute :: "vec3 list \<Rightarrow> nat list \<Rightarrow> vec3 list \<Rightarrow> vec3 list" where
  "substitute pose idx vals = fold (\<lambda>iv p. p[fst iv := snd iv]) (zip idx vals) pose"

text \<open>
  \<^verbatim>\<open>pose_start[idx] = vals\<close>: the values need one row per index, or a single row that is
  broadcast; an index out of range raises.
\<close>

definition put_rows :: "vec3 list \<Rightarrow> nat list \<Rightarrow> vec3 list \<Rightarrow> py_error + vec3 list" where
  "put_rows pose idx vals =
     (if length vals \<noteq> length idx \<and> length vals \<noteq> 1 then Inl ValueError
      else if \<not> list_all (\<lambda>i. i < length pose) idx then Inl IndexError
      else Inr (substitute pose idx
                 (if length vals = length idx then vals else replicate (length idx) (hd vals))))"

text \<open>
  The loop of \<^verbatim>\<open>__call__\<close> over \<^verbatim>\<open>system.coords\<close>: \<^verbatim>\<open>pose_start\<close> is updated in place
  and carried from one rotamer to the next; \<open>Es\<close> collects the energies.
\<close>

fun energy_loop ::
  "energy_func \<Rightarrow> rotamer_ensemble \<Rightarrow> vec3 list \<Rightarrow> real list \<Rightarrow> vec3 list list \<Rightarrow>
   py_error + real list" where
  "energy_loop self system pose_start Es [] = Inr Es"
| "energy_loop self system pose_start Es (rot # rots) =
     (case efunc_residue_ix system of
        None \<Rightarrow> Inl (AttributeError ''efunc_residue_ix'')
      | Some rix \<Rightarrow>
     (case take_rows rot rix of
        Inl e \<Rightarrow> Inl e
      | Inr vals \<Rightarrow>
     (case efunc_protein_ix system of
        None \<Rightarrow> Inl (AttributeError ''efunc_protein_ix'')
      | Some pix \<Rightarrow>
     (case put_rows pose_start pix vals of
        Inl e \<Rightarrow> Inl e
      | Inr pose \<Rightarrow> energy_loop self system pose (Es @ [potential_energy self pose]) rots))))"

text \<open>
  \<^verbatim>\<open>OpenMMEnergyFunc.__call__\<close>: the system as the call leaves it, and the array of
  energies or the exception raised.
\<close>

definition call ::
  "(real list list \<Rightarrow> nat list \<times> nat list) \<Rightarrow> energy_func \<Rightarrow> rotamer_ensemble \<Rightarrow>
   rotamer_ensemble \<times> (py_error + real list)" where
  "call lsa self system =
     (case (if efunc_protein_ix system = None then prepare_system lsa self system
            else (system, Inr ())) of
        (system1, Inl e) \<Rightarrow> (system1, Inl e)
      | (system1, Inr u) \<Rightarrow>
          (system1, energy_loop self system1 (protein_positions self) [] (coords system1)))"

section \<open>Site-pair screen\<close>

text \<open>
  A spin label of the toolkit is a rotamer ensemble that also has a spin centroid, a
  single point. \<^verbatim>\<open>xl.SpinLabel('R1M', res, t4l)\<close>, \<^verbatim>\<open>xl.get_site_volume(res, t4l)\<close> and
  \<^verbatim>\<open>t4l.residues.resnums\<close> are arguments of the model (\<open>SpinLabel\<close>, \<open>get_site_volume\<close>,
  \<open>resnums\<close>).
\<close>

record spin_label = rotamer_ensemble +
  spin_centroid :: vec3

text \<open>\<^verbatim>\<open>select_idxs = np.argwhere(vols > 100).flatten()\<close>\<close>

definition select_idxs :: "real list \<Rightarrow> nat list" where
  "select_idxs vols = filter (\<lambda>i. vols ! i > 100) [0..<length vols]"

text \<open>
  A Python dictionary keeps its keys in insertion order; assigning to a key that is
  present replaces its value in place.
\<close>

fun dict_set :: "('k \<times> 'v) list \<Rightarrow> 'k \<Rightarrow> 'v \<Rightarrow> ('k \<times> 'v) list" where
  "dict_set [] k v = [(k, v)]"
| "dict_set (kv # kvs) k v = (if fst kv = k then (k, v) # kvs else kv # dict_set kvs k v)"

definition dict_get :: "('k \<times> 'v) list \<Rightarrow> 'k \<Rightarrow> py_error + 'v" where
  "dict_get d k = (case map_of d k of None \<Rightarrow> Inl KeyError | Some v \<Rightarrow> Inr v)"

text \<open>
  The second cell: the volumes of all residues, the residues whose volume exceeds 100,
  and the dictionary \<^verbatim>\<open>SLs\<close> from residue number to label and volume.
\<close>

definition build_SLs ::
  "(int \<Rightarrow> real) \<Rightarrow> (int \<Rightarrow> spin_label) \<Rightarrow> int list \<Rightarrow> (int \<times> spin_label \<times> real) list" where
  "build_SLs get_site_volume SpinLabel resnums =
     (let vols = map get_site_volume resnums;
          idxs = select_idxs vols;
          possible_residues = map (\<lambda>i. resnums ! i) idxs
      in fold (\<lambda>rv SLs. dict_set SLs (fst rv) (SpinLabel (fst rv), snd rv))
           (zip possible_residues (map (\<lambda>i. vols ! i) idxs)) [])"

text \<open>\<^verbatim>\<open>itertools.combinations(SLs, 2)\<close>: the pairs of keys, in order.\<close>

fun combinations2 :: "'a list \<Rightarrow> ('a \<times> 'a) list" where
  "combinations2 [] = []"
| "combinations2 (x # xs) = map (Pair x) xs @ combinations2 xs"

text \<open>\<^verbatim>\<open>np.linalg.norm\<close> of a point.\<close>

definition np_norm :: "vec3 \<Rightarrow> real" where
  "np_norm p = (case p of (p0, p1, p2) \<Rightarrow> sqrt (p0 * p0 + p1 * p1 + p2 * p2))"

text \<open>
  The third cell: the loop over the pairs of keys, with the lists \<^verbatim>\<open>pairs\<close> and
  \<^verbatim>\<open>scores\<close> it appends to. The quotients are those of the reals; they agree with
  numpy's as long as the divisors are not zero, that is, the two sites differ and the
  smaller volume is positive.
\<close>

fun screen_loop ::
  "(int \<times> spin_label \<times> real) list \<Rightarrow> (int \<times> int) list \<times> real list \<Rightarrow> (int \<times> int) list \<Rightarrow>
   py_error + ((int \<times> int) list \<times> real list)" where
  "screen_loop SLs acc [] = Inr acc"
| "screen_loop SLs acc (perm # perms) =
     (case dict_get SLs (fst perm) of
        Inl e \<Rightarrow> Inl e
      | Inr lv1 \<Rightarrow>
     (case dict_get SLs (snd perm) of
        Inl e \<Rightarrow> Inl e
      | Inr lv2 \<Rightarrow>
          (let mean_dist = np_norm (vec_sub (spin_centroid (fst lv1)) (spin_centroid (fst lv2)))
           in if mean_dist < 25 then screen_loop SLs acc perms
              else screen_loop SLs
                     (fst acc @ [perm],
                      snd acc @ [mean_dist / real_of_int (site (fst lv2) - site (fst lv1))
                                   / (min (snd lv1) (snd lv2)) powr (1 / 3)])
                     perms)))"

text \<open>
  \<^verbatim>\<open>np.argmin\<close>: the first index of a least entry; it raises on an empty sequence.
\<close>

fun argmin_from :: "real \<Rightarrow> nat \<Rightarrow> nat \<Rightarrow> real list \<Rightarrow> nat" where
  "argmin_from best bi i [] = bi"
| "argmin_from best bi i (x # xs) =
     (if x < best then argmin_from x i (Suc i) xs else argmin_from best bi (Suc i) xs)"

definition np_argmin :: "real list \<Rightarrow> py_error + nat" where
  "np_argmin xs = (case xs of [] \<Rightarrow> Inl ValueError | x # xs' \<Rightarrow> Inr (argmin_from x 0 1 xs'))"

text \<open>The fourth cell: \<^verbatim>\<open>idx = np.argmin(scores); site1, site2 = pairs[idx]\<close>.\<close>

definition best_pair :: "(int \<times> int) list \<Rightarrow> real list \<Rightarrow> py_error + (int \<times> int)" where
  "best_pair pairs scores =
     (case np_argmin scores of
        Inl e \<Rightarrow> Inl e
      | Inr idx \<Rightarrow> if idx < length pairs then Inr (pairs ! idx) else Inl IndexError)"

text \<open>The notebook up to the reported pair: \<^verbatim>\<open>pairs\<close>, \<^verbatim>\<open>scores\<close> and \<^verbatim>\<open>(site1, site2)\<close>.\<close>

definition site_pair_screen ::
  "(int \<Rightarrow> real) \<Rightarrow> (int \<Rightarrow> spin_label) \<Rightarrow> int list \<Rightarrow>
   py_error + ((int \<times> int) list \<times> real list \<times> (int \<times> int))" where
  "site_pair_screen get_site_volume SpinLabel resnums =
     (let SLs = build_SLs get_site_volume SpinLabel resnums
      in case screen_loop SLs ([], []) (combinations2 (map fst SLs)) of
           Inl e \<Rightarrow> Inl e
         | Inr acc \<Rightarrow>
             (case best_pair (fst acc) (snd acc) of
                Inl e \<Rightarrow> Inl e
              | Inr sites \<Rightarrow> Inr (fst acc, snd acc, sites)))"

section \<open>Calls of the toolkit's save function\<close>

text \<open>
  The positional arguments of a call of \<^verbatim>\<open>xl.save\<close>: a string is a path, the other
  arguments are label ensembles or protein objects. Keyword arguments
  (\<^verbatim>\<open>KDE=False\<close>) are not positional and are left out.
\<close>

datatype save_arg =
    PathArg string
  | LabelArg spin_label
  | ProteinArg atomgroup

fun is_object :: "save_arg \<Rightarrow> bool" where
  "is_object (PathArg p) = False"
| "is_object (LabelArg l) = True"
| "is_object (ProteinArg p) = True"

text \<open>Site-pair screen: \<^verbatim>\<open>xl.save(SL1, SL2, t4l)\<close>\<close>

definition save_args_site_pair_screen :: "spin_label \<Rightarrow> spin_label \<Rightarrow> atomgroup \<Rightarrow> save_arg list" where
  "save_args_site_pair_screen SL1 SL2 t4l = [LabelArg SL1, LabelArg SL2, ProteinArg t4l]"

text \<open>Membrane docking: \<^verbatim>\<open>xl.save('C2_docked.pdb', *label_list, CPLA_C2, KDE=False)\<close>\<close>

definition save_args_membrane_docking :: "spin_label list \<Rightarrow> atomgroup \<Rightarrow> save_arg list" where
  "save_args_membrane_docking label_list CPLA_C2 =
     PathArg ''C2_docked.pdb'' # map LabelArg label_list @ [ProteinArg CPLA_C2]"

text \<open>Arbitrary molecular labels: \<^verbatim>\<open>xl.save(*labels, prot)\<close>\<close>

definition save_args_arbitrary_labels :: "spin_label list \<Rightarrow> atomgroup \<Rightarrow> save_arg list" where
  "save_args_arbitrary_labels labels prot = map LabelArg labels @ [ProteinArg prot]"

text \<open>OpenMM score function: \<^verbatim>\<open>xl.save(f'{tempdir}/tmp.pdb', protein)\<close>\<close>

definition save_args_openmm :: "string \<Rightarrow> atomgroup \<Rightarrow> save_arg list" where
  "save_args_openmm tempdir protein = [PathArg (tempdir @ ''/tmp.pdb''), ProteinArg protein]"

text \<open>
  The two shapes of a call: an output path first and objects after it, or objects only.
\<close>

fun path_then_objects :: "save_arg list \<Rightarrow> bool" where
  "path_then_objects (PathArg p # rest) = list_all is_object rest"
| "path_then_objects args = False"

definition objects_only :: "save_arg list \<Rightarrow> bool" where
  "objects_only args = list_all is_object args"

section \<open>Name binding in the notebooks\<close>

text \<open>
  A notebook is run cell by cell in one global namespace. Of a statement the model keeps
  the global names it reads, in the order of evaluation, and the names it binds. A
  statement that reads an unbound name raises \<^verbatim>\<open>NameError\<close> for the first such name and
  the run stops. Variables of a comprehension are local to it and are left out; a loop
  header binds its targets and is followed by the statements of its body; a \<^verbatim>\<open>def\<close>
  binds the function's name, and the global names of the function's body are read by the
  statement that calls it.
\<close>

datatype stmt = Stmt "string list" "string list"

fun run_stmt :: "string list \<Rightarrow> stmt \<Rightarrow> py_error + string list" where
  "run_stmt env (Stmt reads binds) =
     (case filter (\<lambda>name. name \<notin> set env) reads of
        [] \<Rightarrow> Inr (binds @ env)
      | name # names \<Rightarrow> Inl (NameError name))"

fun run_stmts :: "string list \<Rightarrow> stmt list \<Rightarrow> py_error + string list" where
  "run_stmts env [] = Inr env"
| "run_stmts env (s # ss) =
     (case run_stmt env s of Inl e \<Rightarrow> Inl e | Inr env1 \<Rightarrow> run_stmts env1 ss)"

text \<open>The built-in names the notebooks read, and a run of the cells of a notebook.\<close>

definition builtins :: "string list" where
  "builtins = [''zip'', ''enumerate'', ''print'', ''hasattr'', ''isinstance'']"

definition run_notebook :: "string list \<Rightarrow> stmt list list \<Rightarrow> py_error + string list" where
  "run_notebook env cells = run_stmts env (concat cells)"

text \<open>The code cells of ``Arbitrary molecular labels''.\<close>

definition arbitrary_labels_notebook :: "stmt list list" where
  "arbitrary_labels_notebook =
     [[Stmt [] [''np''],
       Stmt [] [''plt''],
       Stmt [] [''xl''],
       Stmt [''plt''] []],
      [Stmt [] [''aln_atoms''],
       Stmt [] [''spin_atoms''],
       Stmt [''xl'', ''aln_atoms'', ''spin_atoms''] []],
      [Stmt [''xl''] []],
      [Stmt [''np''] [''r''],
       Stmt [''xl'', ''labels'', ''r''] [''P'']],
      [Stmt [''plt''] [''fig'', ''ax''],
       Stmt [''ax'', ''r'', ''P''] [],
       Stmt [''ax''] [],
       Stmt [''ax''] [],
       Stmt [''ax''] [''spine''],
       Stmt [''spine''] [],
       Stmt [''ax'', ''spine''] [],
       Stmt [''plt''] [],
       Stmt [''xl'', ''labels'', ''prot''] []]]"

text \<open>The code cells of the site-pair screen.\<close>

definition site_pair_screen_notebook :: "stmt list list" where
  "site_pair_screen_notebook =
     [[Stmt [] [''combinations''],
       Stmt [] [''tqdm''],
       Stmt [] [''np''],
       Stmt [] [''plt''],
       Stmt [] [''xl'']],
      [Stmt [''xl''] [''t4l''],
       Stmt [''np'', ''tqdm'', ''t4l'', ''xl''] [''vols''],
       Stmt [''np'', ''vols''] [''select_idxs''],
       Stmt [''t4l'', ''select_idxs''] [''possible_residues''],
       Stmt [] [''SLs''],
       Stmt [''zip'', ''tqdm'', ''possible_residues'', ''vols'', ''select_idxs''] [''res'', ''vol''],
       Stmt [''xl'', ''res'', ''t4l'', ''vol'', ''SLs''] []],
      [Stmt [] [''pairs''],
       Stmt [] [''scores''],
       Stmt [''np''] [''r''],
       Stmt [''tqdm'', ''combinations'', ''SLs''] [''perm''],
       Stmt [''perm''] [''res1'', ''res2''],
       Stmt [''SLs'', ''res1'', ''res2''] [''SL1'', ''vol1'', ''SL2'', ''vol2''],
       Stmt [''np'', ''SL1'', ''SL2''] [''mean_dist''],
       Stmt [''mean_dist''] [],
       Stmt [''pairs'', ''perm''] [],
       Stmt [''scores'', ''mean_dist'', ''SL2'', ''SL1'', ''np'', ''vol1'', ''vol2''] []],
      [Stmt [''np'', ''scores''] [''idx''],
       Stmt [''pairs'', ''idx''] [''site1'', ''site2''],
       Stmt [''print'', ''site1'', ''site2''] []],
      [Stmt [''SLs'', ''site1'', ''site2''] [''SL1'', ''vol1'', ''SL2'', ''vol2''],
       Stmt [''np''] [''r''],
       Stmt [''xl'', ''SL1'', ''SL2'', ''r''] [''P''],
       Stmt [''plt''] [''fig'', ''ax''],
       Stmt [''ax'', ''r'', ''P''] [],
       Stmt [''ax''] [],
       Stmt [''ax''] [],
       Stmt [''ax''] [''spine''],
       Stmt [''spine''] [],
       Stmt [''ax'', ''spine''] [],
       Stmt [''plt''] [],
       Stmt [''xl'', ''SL1'', ''SL2'', ''t4l''] []]]"

text \<open>The code cells of ``Membrane Docking''.\<close>

definition membrane_docking_notebook :: "stmt list list" where
  "membrane_docking_notebook =
     [[Stmt [] [''np''],
       Stmt [] [''Rotation''],
       Stmt [] [''minimize''],
       Stmt [] [''xl'']],
      [Stmt [''xl''] [''CPLA_C2''],
       Stmt [''np''] [''sites'', ''depths''],
       Stmt [''sites'', ''xl'', ''CPLA_C2''] [''label_list''],
       Stmt [''np'', ''label_list''] [''spin_centroids''],
       Stmt [''spin_centroids'', ''np''] [''spin_at_ori''],
       Stmt [] [''objective''],
       Stmt [''minimize'', ''objective'', ''Rotation'', ''spin_at_ori'', ''np'', ''depths''] [''fit'']],
      [Stmt [''Rotation'', ''fit''] [''R''],
       Stmt [''CPLA_C2'', ''np'', ''spin_centroids'', ''R'', ''fit''] [],
       Stmt [''np'', ''spin_centroids''] [''spin_centroids''],
       Stmt [''enumerate'', ''label_list''] [''i'', ''SL''],
       Stmt [''SL'', ''CPLA_C2''] [],
       Stmt [''SL'', ''spin_centroids'', ''i''] [],
       Stmt [''xl'', ''label_list'', ''CPLA_C2''] []],
      [Stmt [] [''plt''],
       Stmt [''plt'', ''sites'', ''depths''] [],
       Stmt [''plt'', ''sites'', ''spin_centroids''] [],
       Stmt [''plt''] [],
       Stmt [''plt''] [],
       Stmt [''plt''] [],
       Stmt [''plt''] []]]"

section \<open>The constructor of the energy function\<close>



text \<open>
  The force generators of a force field; \<^verbatim>\<open>__init__\<close> keeps the instances of
  \<^verbatim>\<open>forcefield.NonbondedGenerator\<close>.
\<close>

datatype force_generator = NonbondedGenerator | OtherGenerator string






section \<open>Attribute accesses on label ensembles\<close>







section \<open>Control flow of the authored code\<close>



































section \<open>Notions used to state the properties of the OpenMM score function\<close>

text \<open>
  The \<^verbatim>\<open>score\<close> that \<^verbatim>\<open>match_atoms\<close> computes for a rotamer: the cost of the assignment
  that \<open>lsa\<close> returns on the rotamer's matrix of squared distances.
\<close>

definition rotamer_cost ::
  "(real list list \<Rightarrow> nat list \<times> nat list) \<Rightarrow> vec3 list \<Rightarrow> vec3 list \<Rightarrow> real" where
  "rotamer_cost lsa ref sub =
     assignment_cost (pairwise_sqdist ref sub)
       (fst (lsa (pairwise_sqdist ref sub))) (snd (lsa (pairwise_sqdist ref sub)))"

text \<open>
  A solver for \<open>2 \<times> 2\<close> cost matrices, and a reference selection and a system with two
  atoms and two rotamers, on which the functions are evaluated.
\<close>

definition lsa_2x2 :: "real list list \<Rightarrow> nat list \<times> nat list" where
  "lsa_2x2 D =
     (if D ! 0 ! 0 + D ! 1 ! 1 \<le> D ! 0 ! 1 + D ! 1 ! 0 then ([0, 1], [0, 1]) else ([0, 1], [1, 0]))"

definition example_reference :: atomgroup where
  "example_reference = \<lparr>ix = [1, 2], positions = [(0, 0, 0), (1, 0, 0)]\<rparr>"

definition example_system :: rotamer_ensemble where
  "example_system =
     \<lparr>site = 48, selstr = ''resnum 48'',
      coords = [[(0, 0, 1), (1, 0, 1)], [(1, 0, 0), (0, 0, 0)]],
      efunc_protein_ix = None, efunc_residue_ix = None\<rparr>"

definition example_efunc :: energy_func where
  "example_efunc =
     \<lparr>protein_positions = [(5, 5, 5), (0, 0, 0), (1, 0, 0), (9, 9, 9)],
      protein_select_atoms = (\<lambda>sel. example_reference),
      potential_energy = (\<lambda>pose. sum_list (map col2 pose))\<rparr>"

text \<open>
  An energy that weighs the atoms of the pose differently, so that it tells which row of
  a rotamer was written at which index.
\<close>

definition weighted_energy :: "vec3 list \<Rightarrow> real" where
  "weighted_energy pose =
     sum_list (map (\<lambda>(w, p). w * (fst p + col2 p)) (zip [1, 10, 100, 1000] pose))"

definition example_efunc_weighted :: energy_func where
  "example_efunc_weighted =
     \<lparr>protein_positions = [(5, 5, 5), (0, 0, 0), (1, 0, 0), (9, 9, 9)],
      protein_select_atoms = (\<lambda>sel. example_reference),
      potential_energy = weighted_energy\<rparr>"

text \<open>
  A selection of three atoms of a protein, and a system whose one rotamer has two atoms
  (an ensemble built without the hydrogen atoms that the protein has).
\<close>

definition long_reference :: atomgroup where
  "long_reference = \<lparr>ix = [1, 2, 3], positions = [(0, 0, 0), (1, 0, 0), (2, 0, 0)]\<rparr>"

definition short_system :: rotamer_ensemble where
  "short_system =
     \<lparr>site = 48, selstr = ''resnum 48'',
      coords = [[(0, 0, 0), (1, 0, 0)]],
      efunc_protein_ix = None, efunc_residue_ix = None\<rparr>"

definition long_efunc :: energy_func where
  "long_efunc =
     \<lparr>protein_positions = [(5, 5, 5), (0, 0, 0), (1, 0, 0), (2, 0, 0), (9, 9, 9)],
      protein_select_atoms = (\<lambda>sel. long_reference),
      potential_energy = (\<lambda>pose. sum_list (map col2 pose))\<rparr>"

section \<open>Notions used to state the properties of the site-pair screen\<close>

text \<open>
  The score of a pair of residues as a formula of the residue numbers, the volumes and
  the centroids: the distance of the centroids, divided by the difference of the residue
  numbers and by the cube root of the smaller volume.
\<close>

definition centroid_distance :: "(int \<Rightarrow> spin_label) \<Rightarrow> int \<times> int \<Rightarrow> real" where
  "centroid_distance SpinLabel rr =
     np_norm (vec_sub (spin_centroid (SpinLabel (fst rr))) (spin_centroid (SpinLabel (snd rr))))"

definition pair_score :: "(int \<Rightarrow> real) \<Rightarrow> (int \<Rightarrow> spin_label) \<Rightarrow> int \<times> int \<Rightarrow> real" where
  "pair_score get_site_volume SpinLabel rr =
     centroid_distance SpinLabel rr / real_of_int (snd rr - fst rr)
       / (min (get_site_volume (fst rr)) (get_site_volume (snd rr))) powr (1 / 3)"

text \<open>
  What holds of every entry of \<^verbatim>\<open>SLs\<close>: the label is the one built at the residue, the
  volume is the residue's and exceeds 100, and the residue is one of \<^verbatim>\<open>resnums\<close>.
\<close>

definition entry_ok ::
  "(int \<Rightarrow> real) \<Rightarrow> (int \<Rightarrow> spin_label) \<Rightarrow> int list \<Rightarrow> int \<Rightarrow> spin_label \<times> real \<Rightarrow> bool" where
  "entry_ok gsv SL resnums r lv =
     (fst lv = SL r \<and> snd lv = gsv r \<and> 100 < gsv r \<and> r \<in> set resnums)"

text \<open>
  The score as the loop computes it, from the \<^verbatim>\<open>site\<close> attributes of the two labels.
\<close>

definition label_score :: "(int \<Rightarrow> real) \<Rightarrow> (int \<Rightarrow> spin_label) \<Rightarrow> int \<times> int \<Rightarrow> real" where
  "label_score get_site_volume SpinLabel rr =
     centroid_distance SpinLabel rr
       / real_of_int (site (SpinLabel (snd rr)) - site (SpinLabel (fst rr)))
       / (min (get_site_volume (fst rr)) (get_site_volume (snd rr))) powr (1 / 3)"

text \<open>
  Four residues on which the screen is evaluated: residue 100 has too small a volume, and
  the centroids of 60 and 159 are closer than 25.
\<close>

definition example_resnums :: "int list" where
  "example_resnums = [4, 60, 100, 159]"

definition example_volume :: "int \<Rightarrow> real" where
  "example_volume r = (if r = 100 then 50 else 125)"

definition example_label :: "int \<Rightarrow> spin_label" where
  "example_label r =
     \<lparr>site = r, selstr = [], coords = [], efunc_protein_ix = None, efunc_residue_ix = None,
      spin_centroid = (if r = 4 then 0 else if r = 60 then 30 else if r = 159 then 40 else 100, 0, 0)\<rparr>"

section \<open>Properties of the objective function\<close>

lemma np_dot_self: "np_dot xs xs = Inr (sum_list (map (\<lambda>x. x\<^sup>2) xs))"
proof -
  have "map2 (*) xs xs = map (\<lambda>x. x\<^sup>2) xs"
    by (induction xs) (simp_all add: power2_eq_square)
  then show ?thesis by (simp add: np_dot_def)
qed

lemma sum_list_squares_nonneg: "0 \<le> sum_list (map (\<lambda>x. x\<^sup>2) (xs :: real list))"
  by (induction xs) simp_all

lemma objective_cases:
  "objective from_euler sp depths (x, y, z, zdepth) =
     (case np_sub (map (\<lambda>p. col2 (vec_add (row_matmul p (from_euler x y z)) (0, 0, zdepth))) sp) depths of
        Inl e \<Rightarrow> Inl e
      | Inr resid \<Rightarrow> Inr (sum_list (map (\<lambda>x. x\<^sup>2) resid)))"
  by (simp add: objective_def matmul_def np_dot_self comp_def split: sum.splits)

lemma np_sub_same_length:
  "length xs = length ys \<Longrightarrow> np_sub xs ys = Inr (map (\<lambda>(x, y). x - y) (zip xs ys))"
  by (simp add: np_sub_def)

text \<open>
  C4. For every parameter vector \<open>(x, y, z, zdepth)\<close> the objective, on centred centroids
  and depths of the same length, is the sum over the sites of the squared difference
  between the z-coordinate of the centroid after \<^verbatim>\<open>@ M\<close> and the shift by
  \<open>(0, 0, zdepth)\<close>, and the experimental depth; whatever it returns is nonnegative.
\<close>

theorem objective_sum_of_squares:
  "(length sp = length depths \<longrightarrow>
      objective from_euler sp depths (x, y, z, zdepth) =
        Inr (sum_list (map (\<lambda>(p, d).
              (col2 (vec_add (row_matmul p (from_euler x y z)) (0, 0, zdepth)) - d)\<^sup>2) (zip sp depths))))
   \<and> (\<forall>v. objective from_euler sp depths (x, y, z, zdepth) = Inr v \<longrightarrow> 0 \<le> v)"
proof (intro conjI impI allI)
  assume len: "length sp = length depths"
  let ?zs = "map (\<lambda>p. col2 (vec_add (row_matmul p (from_euler x y z)) (0, 0, zdepth))) sp"
  have "np_sub ?zs depths = Inr (map (\<lambda>(a, d). a - d) (zip ?zs depths))"
    using len by (simp add: np_sub_same_length)
  moreover have "map (\<lambda>x. x\<^sup>2) (map (\<lambda>(a, d). a - d) (zip ?zs depths)) =
      map (\<lambda>(p, d). (col2 (vec_add (row_matmul p (from_euler x y z)) (0, 0, zdepth)) - d)\<^sup>2) (zip sp depths)"
    by (simp add: zip_map1 case_prod_unfold comp_def)
  ultimately show "objective from_euler sp depths (x, y, z, zdepth) =
        Inr (sum_list (map (\<lambda>(p, d).
              (col2 (vec_add (row_matmul p (from_euler x y z)) (0, 0, zdepth)) - d)\<^sup>2) (zip sp depths)))"
    by (simp add: objective_cases)
next
  fix v
  assume "objective from_euler sp depths (x, y, z, zdepth) = Inr v"
  then show "0 \<le> v"
    by (auto simp: objective_cases sum_list_squares_nonneg split: sum.splits)
qed

theorem objective_sum_of_squares_witness:
  "objective euler_xyz_matrix (spin_at_ori [(1, 2, 3), (3, 2, 5)]) [1, 5] (pi, 0, 0, 2) = Inr 20"
proof -
  have "objective euler_xyz_matrix (spin_at_ori [(1, 2, 3), (3, 2, 5)]) [1, 5] (pi, 0, 0, 2) =
        Inr (sum_list (map (\<lambda>(p, d).
              (col2 (vec_add (row_matmul p (euler_xyz_matrix pi 0 0)) (0, 0, 2)) - d)\<^sup>2)
              (zip (spin_at_ori [(1, 2, 3), (3, 2, 5)]) [1, 5])))"
    using objective_sum_of_squares [of "spin_at_ori [(1, 2, 3), (3, 2, 5)]" "[1, 5]" euler_xyz_matrix pi 0 0 2]
    by (simp add: spin_at_ori_def)
  then show ?thesis
    by (simp add: spin_at_ori_def mean_axis0_def vec_sub_def vec_add_def row_matmul_def
        euler_xyz_matrix_def col2_def)
qed

section \<open>Properties of atom matching\<close>

lemma collect_mat_at:
  "\<forall>ab \<in> set prs. fst ab < length D \<and> snd ab < length (D ! fst ab) \<Longrightarrow>
   collect (mat_at D) prs = Inr (map (\<lambda>(a, b). D ! a ! b) prs)"
  by (induction prs) (auto simp: mat_at_def)

lemma length_pairwise_sqdist [simp]: "length (pairwise_sqdist ref sub) = length ref"
  by (simp add: pairwise_sqdist_def)

lemma length_pairwise_sqdist_row [simp]:
  "a < length ref \<Longrightarrow> length (pairwise_sqdist ref sub ! a) = length sub"
  by (simp add: pairwise_sqdist_def)

lemma contract_indices_in_range:
  assumes "lsa_contract (length ref) (pairwise_sqdist ref sub) idx" and "length sub = length ref"
  shows "\<forall>ab \<in> set (zip (fst idx) (snd idx)).
           fst ab < length (pairwise_sqdist ref sub) \<and>
           snd ab < length (pairwise_sqdist ref sub ! fst ab)"
proof
  fix ab assume ab: "ab \<in> set (zip (fst idx) (snd idx))"
  then have "(fst ab, snd ab) \<in> set (zip (fst idx) (snd idx))" by simp
  then have "fst ab \<in> set (fst idx)" "snd ab \<in> set (snd idx)"
    by (rule set_zip_leftD, rule set_zip_rightD)
  with assms show "fst ab < length (pairwise_sqdist ref sub) \<and>
           snd ab < length (pairwise_sqdist ref sub ! fst ab)"
    by (auto simp: lsa_contract_def is_permutation_def)
qed

lemma match_step_score:
  assumes "lsa_contract (length ref) (pairwise_sqdist ref sub) (lsa (pairwise_sqdist ref sub))"
    and "length sub = length ref"
  shows "match_loop lsa ref st (sub # subs) =
     (if less_than_best (rotamer_cost lsa ref sub) (fst st)
      then match_loop lsa ref (Some (rotamer_cost lsa ref sub), Some (snd (lsa (pairwise_sqdist ref sub)))) subs
      else match_loop lsa ref st subs)"
  using collect_mat_at [OF contract_indices_in_range [OF assms]]
  by (simp add: Let_def rotamer_cost_def assignment_cost_def)

lemma match_loop_invariant:
  assumes "\<forall>sub \<in> set subs. length sub = length ref \<and>
             lsa_contract (length ref) (pairwise_sqdist ref sub) (lsa (pairwise_sqdist ref sub))"
  shows "\<exists>st'. match_loop lsa ref st subs = Inr st' \<and>
           (st' = st \<or> (\<exists>sub \<in> set subs.
                st' = (Some (rotamer_cost lsa ref sub), Some (snd (lsa (pairwise_sqdist ref sub)))))) \<and>
           (\<forall>sub \<in> set subs. \<not> less_than_best (rotamer_cost lsa ref sub) (fst st')) \<and>
           (\<forall>c. \<not> less_than_best c (fst st) \<longrightarrow> \<not> less_than_best c (fst st'))"
  using assms
proof (induction subs arbitrary: st)
  case Nil
  then show ?case by simp
next
  case (Cons sub subs)
  have step: "match_loop lsa ref st (sub # subs) =
     (if less_than_best (rotamer_cost lsa ref sub) (fst st)
      then match_loop lsa ref (Some (rotamer_cost lsa ref sub), Some (snd (lsa (pairwise_sqdist ref sub)))) subs
      else match_loop lsa ref st subs)"
    using Cons.prems by (intro match_step_score) auto
  have rest: "\<forall>sub \<in> set subs. length sub = length ref \<and>
             lsa_contract (length ref) (pairwise_sqdist ref sub) (lsa (pairwise_sqdist ref sub))"
    using Cons.prems by simp
  show ?case
  proof (cases "less_than_best (rotamer_cost lsa ref sub) (fst st)")
    case True
    let ?st1 = "(Some (rotamer_cost lsa ref sub), Some (snd (lsa (pairwise_sqdist ref sub))))"
    from Cons.IH [OF rest, of ?st1] obtain st' where
      r: "match_loop lsa ref ?st1 subs = Inr st'"
      and o: "st' = ?st1 \<or> (\<exists>s \<in> set subs.
                st' = (Some (rotamer_cost lsa ref s), Some (snd (lsa (pairwise_sqdist ref s)))))"
      and m: "\<forall>s \<in> set subs. \<not> less_than_best (rotamer_cost lsa ref s) (fst st')"
      and mono: "\<forall>c. \<not> less_than_best c (fst ?st1) \<longrightarrow> \<not> less_than_best c (fst st')"
      by blast
    have "\<not> less_than_best (rotamer_cost lsa ref sub) (fst st')"
      using mono by simp
    moreover have "\<forall>c. \<not> less_than_best c (fst st) \<longrightarrow> \<not> less_than_best c (fst st')"
    proof (intro allI impI)
      fix c assume "\<not> less_than_best c (fst st)"
      with True have "\<not> less_than_best c (fst ?st1)"
        by (cases "fst st") auto
      with mono show "\<not> less_than_best c (fst st')" by blast
    qed
    ultimately show ?thesis
      using r o m True step by auto
  next
    case False
    from Cons.IH [OF rest, of st] obtain st' where
      r: "match_loop lsa ref st subs = Inr st'"
      and o: "st' = st \<or> (\<exists>s \<in> set subs.
                st' = (Some (rotamer_cost lsa ref s), Some (snd (lsa (pairwise_sqdist ref s)))))"
      and m: "\<forall>s \<in> set subs. \<not> less_than_best (rotamer_cost lsa ref s) (fst st')"
      and mono: "\<forall>c. \<not> less_than_best c (fst st) \<longrightarrow> \<not> less_than_best c (fst st')"
      by blast
    then show ?thesis
      using False step by auto
  qed
qed

lemma permutation_2_cases:
  assumes "is_permutation 2 p"
  shows "p = [0, 1] \<or> p = [1, 0]"
proof -
  from assms have d: "distinct p" and s: "set p = {0, 1}"
    unfolding is_permutation_def
    by (simp_all add: atLeast0_lessThan_Suc numeral_2_eq_2 insert_commute)
  have "length p = 2"
    using distinct_card [OF d] s by simp
  then obtain a b where p: "p = [a, b]"
    by (cases p; cases "tl p"; simp)
  from s p have "{a, b} = {0, 1}" by simp
  then have "(a = 0 \<and> b = 1) \<or> (a = 1 \<and> b = 0)"
    by (simp add: doubleton_eq_iff)
  with p show ?thesis by blast
qed

lemma upt_2: "[0..<2] = [0, 1]"
  by (simp add: upt_rec)

lemma lsa_2x2_contract: "lsa_contract 2 D (lsa_2x2 D)"
proof -
  have rows: "fst (lsa_2x2 D) = [0..<2]"
    by (simp add: lsa_2x2_def upt_2)
  have perm: "is_permutation 2 (snd (lsa_2x2 D))"
    unfolding is_permutation_def
    by (simp add: lsa_2x2_def atLeast0_lessThan_Suc numeral_2_eq_2 insert_commute)
  have opt: "assignment_cost D (fst (lsa_2x2 D)) (snd (lsa_2x2 D)) \<le> assignment_cost D [0..<2] p"
    if "is_permutation 2 p" for p
  proof -
    from permutation_2_cases [OF that] show ?thesis
    proof
      assume "p = [0, 1]"
      then show ?thesis by (simp add: lsa_2x2_def assignment_cost_def upt_2)
    next
      assume "p = [1, 0]"
      then show ?thesis by (simp add: lsa_2x2_def assignment_cost_def upt_2)
    qed
  qed
  show ?thesis
    unfolding lsa_contract_def using rows perm opt by blast
qed

lemma example_costs:
  "rotamer_cost lsa_2x2 (positions example_reference) (coords example_system ! 0) = 2"
  "rotamer_cost lsa_2x2 (positions example_reference) (coords example_system ! Suc 0) = 0"
  "snd (lsa_2x2 (pairwise_sqdist (positions example_reference) (coords example_system ! Suc 0))) = [1, 0]"
  by (simp_all add: example_system_def example_reference_def rotamer_cost_def pairwise_sqdist_def
      sqdist_def vec_sub_def lsa_2x2_def assignment_cost_def)

text \<open>
  C6. For a reference selection and a subject ensemble with at least one rotamer, every
  rotamer having as many atoms as the reference, and \<open>lsa\<close> behaving on the arising cost
  matrices as scipy documents \<^verbatim>\<open>linear_sum_assignment\<close>: \<^verbatim>\<open>match_atoms\<close> returns the column
  assignment that \<open>lsa\<close> produced for a rotamer \<open>k\<close> whose assignment cost (sum of squared
  distances between matched atoms) is smallest over all rotamers; the returned array is a
  permutation of the atom indices \<open>0, \<dots>, n - 1\<close>, and no permutation on any rotamer costs
  less.
\<close>

theorem match_atoms_min_cost_assignment:
  assumes ne: "coords subject \<noteq> []"
    and sz: "\<forall>sub \<in> set (coords subject). length sub = length (positions reference)"
    and ct: "\<forall>sub \<in> set (coords subject).
               lsa_contract (length (positions reference))
                 (pairwise_sqdist (positions reference) sub)
                 (lsa (pairwise_sqdist (positions reference) sub))"
  shows "\<exists>k < length (coords subject).
           match_atoms lsa reference subject =
             Inr (Some (snd (lsa (pairwise_sqdist (positions reference) (coords subject ! k))))) \<and>
           is_permutation (length (positions reference))
             (snd (lsa (pairwise_sqdist (positions reference) (coords subject ! k)))) \<and>
           (\<forall>j < length (coords subject).
              rotamer_cost lsa (positions reference) (coords subject ! k)
                \<le> rotamer_cost lsa (positions reference) (coords subject ! j)) \<and>
           (\<forall>j < length (coords subject). \<forall>p. is_permutation (length (positions reference)) p \<longrightarrow>
              rotamer_cost lsa (positions reference) (coords subject ! k)
                \<le> assignment_cost (pairwise_sqdist (positions reference) (coords subject ! j))
                     [0..<length (positions reference)] p)"
proof -
  let ?ref = "positions reference"
  let ?subs = "coords subject"
  have all: "\<forall>sub \<in> set ?subs. length sub = length ?ref \<and>
             lsa_contract (length ?ref) (pairwise_sqdist ?ref sub) (lsa (pairwise_sqdist ?ref sub))"
    using sz ct by blast
  from match_loop_invariant [OF all, of "(None, None)"] obtain st' where
    r: "match_loop lsa ?ref (None, None) ?subs = Inr st'"
    and o: "st' = (None, None) \<or> (\<exists>s \<in> set ?subs.
              st' = (Some (rotamer_cost lsa ?ref s), Some (snd (lsa (pairwise_sqdist ?ref s)))))"
    and m: "\<forall>s \<in> set ?subs. \<not> less_than_best (rotamer_cost lsa ?ref s) (fst st')"
    by blast
  from ne obtain s0 where "s0 \<in> set ?subs" by (cases ?subs) auto
  with m have "st' \<noteq> (None, None)" by auto
  with o obtain s where s: "s \<in> set ?subs"
    and st': "st' = (Some (rotamer_cost lsa ?ref s), Some (snd (lsa (pairwise_sqdist ?ref s))))"
    by blast
  from s obtain k where k: "k < length ?subs" "?subs ! k = s"
    by (auto simp: in_set_conv_nth)
  have res: "match_atoms lsa reference subject = Inr (Some (snd (lsa (pairwise_sqdist ?ref (?subs ! k)))))"
    using r st' k by (simp add: match_atoms_def)
  have perm: "is_permutation (length ?ref) (snd (lsa (pairwise_sqdist ?ref (?subs ! k))))"
  proof -
    from ct s have "lsa_contract (length ?ref) (pairwise_sqdist ?ref s) (lsa (pairwise_sqdist ?ref s))"
      by blast
    then have "is_permutation (length ?ref) (snd (lsa (pairwise_sqdist ?ref s)))"
      unfolding lsa_contract_def by blast
    with k show ?thesis by simp
  qed
  have least: "\<forall>j < length ?subs. rotamer_cost lsa ?ref (?subs ! k) \<le> rotamer_cost lsa ?ref (?subs ! j)"
  proof (intro allI impI)
    fix j assume "j < length ?subs"
    then have "?subs ! j \<in> set ?subs" by simp
    with m have "\<not> less_than_best (rotamer_cost lsa ?ref (?subs ! j)) (fst st')"
      by blast
    then have "\<not> rotamer_cost lsa ?ref (?subs ! j) < rotamer_cost lsa ?ref s"
      by (simp add: st')
    then show "rotamer_cost lsa ?ref (?subs ! k) \<le> rotamer_cost lsa ?ref (?subs ! j)"
      by (simp add: k)
  qed
  have glob: "\<forall>j < length ?subs. \<forall>p. is_permutation (length ?ref) p \<longrightarrow>
      rotamer_cost lsa ?ref (?subs ! k) \<le> assignment_cost (pairwise_sqdist ?ref (?subs ! j)) [0..<length ?ref] p"
  proof (intro allI impI)
    fix j p assume j: "j < length ?subs" and p: "is_permutation (length ?ref) p"
    from j have "?subs ! j \<in> set ?subs" by simp
    with ct have "lsa_contract (length ?ref) (pairwise_sqdist ?ref (?subs ! j))
        (lsa (pairwise_sqdist ?ref (?subs ! j)))" by blast
    then have "\<forall>q. is_permutation (length ?ref) q \<longrightarrow>
        assignment_cost (pairwise_sqdist ?ref (?subs ! j))
          (fst (lsa (pairwise_sqdist ?ref (?subs ! j)))) (snd (lsa (pairwise_sqdist ?ref (?subs ! j))))
        \<le> assignment_cost (pairwise_sqdist ?ref (?subs ! j)) [0..<length ?ref] q"
      unfolding lsa_contract_def by blast
    with p have "rotamer_cost lsa ?ref (?subs ! j)
        \<le> assignment_cost (pairwise_sqdist ?ref (?subs ! j)) [0..<length ?ref] p"
      unfolding rotamer_cost_def by blast
    moreover from least j have "rotamer_cost lsa ?ref (?subs ! k) \<le> rotamer_cost lsa ?ref (?subs ! j)"
      by blast
    ultimately show "rotamer_cost lsa ?ref (?subs ! k)
        \<le> assignment_cost (pairwise_sqdist ?ref (?subs ! j)) [0..<length ?ref] p"
      by (rule order_trans [rotated])
  qed
  show ?thesis
  proof (intro exI [of _ k] conjI)
    show "k < length ?subs" by (rule k(1))
    show "match_atoms lsa reference subject = Inr (Some (snd (lsa (pairwise_sqdist ?ref (?subs ! k)))))"
      by (rule res)
    show "is_permutation (length ?ref) (snd (lsa (pairwise_sqdist ?ref (?subs ! k))))"
      by (rule perm)
    show "\<forall>j < length ?subs. rotamer_cost lsa ?ref (?subs ! k) \<le> rotamer_cost lsa ?ref (?subs ! j)"
      by (rule least)
    show "\<forall>j < length ?subs. \<forall>p. is_permutation (length ?ref) p \<longrightarrow>
      rotamer_cost lsa ?ref (?subs ! k) \<le> assignment_cost (pairwise_sqdist ?ref (?subs ! j)) [0..<length ?ref] p"
      by (rule glob)
  qed
qed

theorem match_atoms_min_cost_assignment_witness:
  "match_atoms lsa_2x2 example_reference example_system = Inr (Some [1, 0])"
proof -
  have ne: "coords example_system \<noteq> []"
    by (simp add: example_system_def)
  have sz: "\<forall>sub \<in> set (coords example_system). length sub = length (positions example_reference)"
    by (simp add: example_system_def example_reference_def)
  have "length (positions example_reference) = 2"
    by (simp add: example_reference_def)
  then have ct: "\<forall>sub \<in> set (coords example_system).
               lsa_contract (length (positions example_reference))
                 (pairwise_sqdist (positions example_reference) sub)
                 (lsa_2x2 (pairwise_sqdist (positions example_reference) sub))"
    using lsa_2x2_contract by simp
  from match_atoms_min_cost_assignment [OF ne sz ct] obtain k where
    k: "k < length (coords example_system)"
    and res: "match_atoms lsa_2x2 example_reference example_system =
      Inr (Some (snd (lsa_2x2 (pairwise_sqdist (positions example_reference) (coords example_system ! k)))))"
    and least: "\<forall>j < length (coords example_system).
      rotamer_cost lsa_2x2 (positions example_reference) (coords example_system ! k)
        \<le> rotamer_cost lsa_2x2 (positions example_reference) (coords example_system ! j)"
    by blast
  have len: "length (coords example_system) = 2"
    by (simp add: example_system_def)
  from k len have "k = 0 \<or> k = 1" by linarith
  then show ?thesis
  proof
    assume k0: "k = 0"
    from least len have "rotamer_cost lsa_2x2 (positions example_reference) (coords example_system ! k)
        \<le> rotamer_cost lsa_2x2 (positions example_reference) (coords example_system ! 1)"
      by simp
    then have False
      by (simp add: k0 example_costs)
    then show ?thesis ..
  next
    assume "k = 1"
    with res show ?thesis
      by (simp add: example_costs)
  qed
qed

section \<open>Properties of the energy function\<close>

lemma fold_update_length [simp]:
  "length (fold (\<lambda>iv p. p[fst iv := snd iv]) ivs p) = length (p :: 'a list)"
  by (induction ivs arbitrary: p) simp_all

lemma fold_update_outside:
  "j \<notin> fst ` set ivs \<Longrightarrow> fold (\<lambda>iv p. p[fst iv := snd iv]) ivs p ! j = (p :: 'a list) ! j"
  by (induction ivs arbitrary: p) auto

lemma fold_update_agree:
  "length p = length q \<Longrightarrow> \<forall>j < length p. j \<notin> fst ` set ivs \<longrightarrow> p ! j = q ! j \<Longrightarrow>
   fold (\<lambda>iv p. p[fst iv := snd iv]) ivs p = fold (\<lambda>iv p. p[fst iv := snd iv]) ivs (q :: 'a list)"
proof (induction ivs arbitrary: p q)
  case Nil
  then show ?case by (simp add: nth_equalityI)
next
  case (Cons iv ivs)
  have "fold (\<lambda>iv p. p[fst iv := snd iv]) ivs (p[fst iv := snd iv]) =
        fold (\<lambda>iv p. p[fst iv := snd iv]) ivs (q[fst iv := snd iv])"
  proof (rule Cons.IH)
    show "length (p[fst iv := snd iv]) = length (q[fst iv := snd iv])"
      using Cons.prems(1) by simp
    show "\<forall>j < length (p[fst iv := snd iv]). j \<notin> fst ` set ivs \<longrightarrow>
            p[fst iv := snd iv] ! j = q[fst iv := snd iv] ! j"
    proof (intro allI impI)
      fix j assume j: "j < length (p[fst iv := snd iv])" and out: "j \<notin> fst ` set ivs"
      show "p[fst iv := snd iv] ! j = q[fst iv := snd iv] ! j"
      proof (cases "j = fst iv")
        case True
        with j Cons.prems(1) show ?thesis by simp
      next
        case False
        with out have "j \<notin> fst ` set (iv # ivs)" by simp
        with Cons.prems(2) j have "p ! j = q ! j" by simp
        with False show ?thesis by simp
      qed
    qed
  qed
  then show ?case by simp
qed

lemma substitute_length [simp]: "length (substitute pose idx vals) = length pose"
  by (simp add: substitute_def)

lemma substitute_outside:
  "j \<notin> set idx \<Longrightarrow> substitute pose idx vals ! j = pose ! j"
proof -
  assume "j \<notin> set idx"
  then have "j \<notin> fst ` set (zip idx vals)"
    by (auto dest: set_zip_leftD)
  then show ?thesis
    by (simp add: substitute_def fold_update_outside)
qed

lemma substitute_agree:
  assumes "length p = length q" and "\<forall>j < length q. j \<notin> set idx \<longrightarrow> p ! j = q ! j"
    and "length vals = length idx"
  shows "substitute p idx vals = substitute q idx vals"
proof -
  have "fst ` set (zip idx vals) = set idx"
    using assms(3) by (metis map_fst_zip set_map)
  with assms(1,2) show ?thesis
    unfolding substitute_def by (intro fold_update_agree) simp_all
qed

lemma energy_loop_result:
  assumes pix: "efunc_protein_ix system = Some pix"
    and rix: "efunc_residue_ix system = Some (Some rix)"
    and len: "length rix = length pix"
    and pin: "list_all (\<lambda>i. i < length pose0) pix"
    and rin: "\<forall>rot \<in> set rots. list_all (\<lambda>i. i < length rot) rix"
    and lp: "length p = length pose0"
    and agree: "\<forall>j < length pose0. j \<notin> set pix \<longrightarrow> p ! j = pose0 ! j"
  shows "energy_loop self system p Es rots =
           Inr (Es @ map (\<lambda>rot. potential_energy self (substitute pose0 pix (map ((!) rot) rix))) rots)"
  using rin lp agree
proof (induction rots arbitrary: p Es)
  case Nil
  then show ?case by simp
next
  case (Cons rot rots)
  let ?vals = "map ((!) rot) rix"
  have take: "take_rows rot (Some rix) = Inr ?vals"
    using Cons.prems(1) by (simp add: take_rows_def)
  have same: "substitute p pix ?vals = substitute pose0 pix ?vals"
    using Cons.prems(2,3) len by (intro substitute_agree) simp_all
  have put: "put_rows p pix ?vals = Inr (substitute pose0 pix ?vals)"
    using pin len Cons.prems(2) same by (simp add: put_rows_def)
  have "energy_loop self system (substitute pose0 pix ?vals)
          (Es @ [potential_energy self (substitute pose0 pix ?vals)]) rots =
        Inr ((Es @ [potential_energy self (substitute pose0 pix ?vals)]) @
             map (\<lambda>rot. potential_energy self (substitute pose0 pix (map ((!) rot) rix))) rots)"
  proof (rule Cons.IH)
    show "\<forall>rot \<in> set rots. list_all (\<lambda>i. i < length rot) rix"
      using Cons.prems(1) by simp
    show "length (substitute pose0 pix ?vals) = length pose0" by simp
    show "\<forall>j < length pose0. j \<notin> set pix \<longrightarrow> substitute pose0 pix ?vals ! j = pose0 ! j"
      by (simp add: substitute_outside)
  qed
  then show ?case
    by (simp add: pix rix take put)
qed

lemma match_atoms_coords_only:
  "coords s = coords t \<Longrightarrow> match_atoms lsa reference s = match_atoms lsa reference t"
  by (simp add: match_atoms_def)

lemma call_unprepared:
  "efunc_protein_ix system = None \<Longrightarrow>
   match_atoms lsa (protein_select_atoms self (selstr system)) system = Inr dmap \<Longrightarrow>
   call lsa self system =
     (let system1 = system\<lparr>efunc_protein_ix := Some (ix (protein_select_atoms self (selstr system))),
                            efunc_residue_ix := Some dmap\<rparr>
      in (system1, energy_loop self system1 (protein_positions self) [] (coords system)))"
proof -
  assume a: "efunc_protein_ix system = None"
    and m: "match_atoms lsa (protein_select_atoms self (selstr system)) system = Inr dmap"
  let ?psel = "protein_select_atoms self (selstr system)"
  have "match_atoms lsa ?psel (system\<lparr>efunc_protein_ix := Some (ix ?psel)\<rparr>) = Inr dmap"
    using m match_atoms_coords_only [of "system\<lparr>efunc_protein_ix := Some (ix ?psel)\<rparr>" system lsa ?psel]
    by simp
  then show ?thesis
    using a by (simp add: call_def prepare_system_def Let_def)
qed

lemma call_unprepared_error:
  "efunc_protein_ix system = None \<Longrightarrow>
   match_atoms lsa (protein_select_atoms self (selstr system)) system = Inl e \<Longrightarrow>
   call lsa self system =
     (system\<lparr>efunc_protein_ix := Some (ix (protein_select_atoms self (selstr system)))\<rparr>, Inl e)"
proof -
  assume a: "efunc_protein_ix system = None"
    and m: "match_atoms lsa (protein_select_atoms self (selstr system)) system = Inl e"
  let ?psel = "protein_select_atoms self (selstr system)"
  have "match_atoms lsa ?psel (system\<lparr>efunc_protein_ix := Some (ix ?psel)\<rparr>) = Inl e"
    using m match_atoms_coords_only [of "system\<lparr>efunc_protein_ix := Some (ix ?psel)\<rparr>" system lsa ?psel]
    by simp
  then show ?thesis
    using a by (simp add: call_def prepare_system_def Let_def)
qed

lemma call_prepared:
  "efunc_protein_ix system = Some pix \<Longrightarrow>
   call lsa self system = (system, energy_loop self system (protein_positions self) [] (coords system))"
  by (simp add: call_def)

lemma example_match:
  "match_atoms lsa_2x2 example_reference example_system = Inr (Some [1, 0])"
  by (simp add: match_atoms_def example_system_def example_reference_def pairwise_sqdist_def
      sqdist_def vec_sub_def lsa_2x2_def mat_at_def)

lemma example_call:
  "call lsa_2x2 example_efunc example_system =
     (example_system\<lparr>efunc_protein_ix := Some [1, 2], efunc_residue_ix := Some (Some [1, 0])\<rparr>,
      energy_loop example_efunc
        (example_system\<lparr>efunc_protein_ix := Some [1, 2], efunc_residue_ix := Some (Some [1, 0])\<rparr>)
        (protein_positions example_efunc) [] (coords example_system))"
proof -
  have sel: "protein_select_atoms example_efunc (selstr example_system) = example_reference"
    by (simp add: example_efunc_def)
  have none: "efunc_protein_ix example_system = None"
    by (simp add: example_system_def)
  have m: "match_atoms lsa_2x2 (protein_select_atoms example_efunc (selstr example_system)) example_system
             = Inr (Some [1, 0])"
    using example_match by (simp add: sel)
  show ?thesis
    using call_unprepared [OF none m] by (simp add: sel example_reference_def Let_def)
qed

lemma call_no_conformations:
  assumes "coords system = []"
  shows "snd (call lsa self system) = Inr []"
proof (cases "efunc_protein_ix system")
  case None
  have "match_atoms lsa (protein_select_atoms self (selstr system)) system = Inr None"
    using assms by (simp add: match_atoms_def)
  from call_unprepared [OF None this] show ?thesis
    using assms by (simp add: Let_def)
next
  case (Some pix)
  from call_prepared [OF Some] show ?thesis
    using assms by simp
qed

lemma match_atoms_permutation:
  assumes ne: "coords subject \<noteq> []"
    and all: "\<forall>sub \<in> set (coords subject). length sub = length (positions reference) \<and>
               lsa_contract (length (positions reference))
                 (pairwise_sqdist (positions reference) sub)
                 (lsa (pairwise_sqdist (positions reference) sub))"
  shows "\<exists>rix. match_atoms lsa reference subject = Inr (Some rix) \<and>
           is_permutation (length (positions reference)) rix"
proof -
  let ?ref = "positions reference"
  let ?subs = "coords subject"
  from match_loop_invariant [OF all, of "(None, None)"] obtain st' where
    r: "match_loop lsa ?ref (None, None) ?subs = Inr st'"
    and o: "st' = (None, None) \<or> (\<exists>s \<in> set ?subs.
              st' = (Some (rotamer_cost lsa ?ref s), Some (snd (lsa (pairwise_sqdist ?ref s)))))"
    and m: "\<forall>s \<in> set ?subs. \<not> less_than_best (rotamer_cost lsa ?ref s) (fst st')"
    by blast
  from ne obtain s0 where "s0 \<in> set ?subs" by (cases ?subs) auto
  with m have "st' \<noteq> (None, None)" by auto
  with o obtain s where s: "s \<in> set ?subs"
    and st': "st' = (Some (rotamer_cost lsa ?ref s), Some (snd (lsa (pairwise_sqdist ?ref s))))"
    by blast
  have res: "match_atoms lsa reference subject = Inr (Some (snd (lsa (pairwise_sqdist ?ref s))))"
    using r st' by (simp add: match_atoms_def)
  from all s have "lsa_contract (length ?ref) (pairwise_sqdist ?ref s) (lsa (pairwise_sqdist ?ref s))"
    by blast
  then have "is_permutation (length ?ref) (snd (lsa (pairwise_sqdist ?ref s)))"
    unfolding lsa_contract_def by blast
  with res show ?thesis by blast
qed

lemma energies_of_fitting_indices:
  assumes c: "call lsa self system =
                (system1, energy_loop self system1 (protein_positions self) [] (coords system))"
    and pix: "efunc_protein_ix system1 = Some pix"
    and rix: "efunc_residue_ix system1 = Some (Some rix)"
    and len: "length rix = length pix"
    and pin: "list_all (\<lambda>i. i < length (protein_positions self)) pix"
    and rin: "\<forall>rot \<in> set (coords system). list_all (\<lambda>i. i < length rot) rix"
  shows "\<exists>Es. snd (call lsa self system) = Inr Es \<and>
              length Es = length (coords system) \<and>
              (\<forall>i < length (coords system).
                 Es ! i = potential_energy self
                   (substitute (protein_positions self) pix (map ((!) (coords system ! i)) rix)))"
proof -
  let ?Es = "map (\<lambda>rot. potential_energy self (substitute (protein_positions self) pix (map ((!) rot) rix)))
               (coords system)"
  have "energy_loop self system1 (protein_positions self) [] (coords system) = Inr ([] @ ?Es)"
    using pix rix len pin rin by (rule energy_loop_result) simp_all
  with c have "snd (call lsa self system) = Inr ?Es" by simp
  then show ?thesis by simp
qed

text \<open>
  C1 (as stated). A system with one conformation of two atoms, not yet prepared, on a
  protein whose selection has three atoms: \<^verbatim>\<open>match_atoms\<close> returns the two column indices
  of the assignment of least cost (cost 0), and the assignment
  \<^verbatim>\<open>pose_start[system.efunc_protein_ix] = rot[system.efunc_residue_ix]\<close> of two rows to
  three indices raises \<^verbatim>\<open>ValueError\<close>: the call returns no energy for the one conformation.
\<close>

theorem call_one_energy_per_conformation_counterexample:
  "length (coords short_system) = 1 \<and>
   rotamer_cost lsa_2x2 (positions long_reference) (hd (coords short_system)) = 0 \<and>
   call lsa_2x2 long_efunc short_system =
     (short_system\<lparr>efunc_protein_ix := Some [1, 2, 3], efunc_residue_ix := Some (Some [0, 1])\<rparr>,
      Inl ValueError)"
  by (simp add: call_def prepare_system_def match_atoms_def short_system_def long_efunc_def
      long_reference_def rotamer_cost_def assignment_cost_def pairwise_sqdist_def sqdist_def
      vec_sub_def lsa_2x2_def mat_at_def take_rows_def put_rows_def Let_def)

text \<open>
  C1 (amended). \<^verbatim>\<open>__call__\<close> returns one energy per conformation of \<^verbatim>\<open>coords\<close> when the
  index arrays fit. With no conformation it returns the empty array. On a system that is
  not yet prepared, when the selection \<open>psel\<close> of the protein has one position per index,
  its indices lie within the protein's positions, every conformation has as many atoms as
  the selection, and \<open>lsa\<close> behaves on the arising cost matrices as scipy documents
  \<^verbatim>\<open>linear_sum_assignment\<close>: \<^verbatim>\<open>match_atoms\<close> returns a permutation \<open>rix\<close> of the atom
  indices, and the call returns an array of as many energies as there are conformations,
  the \<open>i\<close>-th being the potential energy of the protein's positions with the rows \<open>rix\<close>
  of the \<open>i\<close>-th conformation written at the indices of the selection. On a system that
  carries index arrays \<open>pix\<close> and \<open>rix\<close> of equal length, \<open>pix\<close> within the protein's
  positions and \<open>rix\<close> within every conformation, the same holds with these arrays.
\<close>

theorem call_energies_when_indices_fit:
  "(coords system = [] \<longrightarrow> snd (call lsa self system) = Inr []) \<and>
   (efunc_protein_ix system = None \<and> coords system \<noteq> [] \<and>
    psel = protein_select_atoms self (selstr system) \<and>
    length (ix psel) = length (positions psel) \<and>
    list_all (\<lambda>i. i < length (protein_positions self)) (ix psel) \<and>
    (\<forall>sub \<in> set (coords system).
       length sub = length (positions psel) \<and>
       lsa_contract (length (positions psel)) (pairwise_sqdist (positions psel) sub)
         (lsa (pairwise_sqdist (positions psel) sub))) \<longrightarrow>
    (\<exists>rix Es. match_atoms lsa psel system = Inr (Some rix) \<and>
          is_permutation (length (ix psel)) rix \<and>
          snd (call lsa self system) = Inr Es \<and>
          length Es = length (coords system) \<and>
          (\<forall>i < length (coords system).
             Es ! i = potential_energy self
               (substitute (protein_positions self) (ix psel) (map ((!) (coords system ! i)) rix))))) \<and>
   (efunc_protein_ix system = Some pix \<and> efunc_residue_ix system = Some (Some rix') \<and>
    length rix' = length pix \<and>
    list_all (\<lambda>i. i < length (protein_positions self)) pix \<and>
    (\<forall>rot \<in> set (coords system). list_all (\<lambda>i. i < length rot) rix') \<longrightarrow>
    (\<exists>Es. snd (call lsa self system) = Inr Es \<and>
          length Es = length (coords system) \<and>
          (\<forall>i < length (coords system).
             Es ! i = potential_energy self
               (substitute (protein_positions self) pix (map ((!) (coords system ! i)) rix')))))"
proof (intro conjI impI)
  assume "coords system = []"
  then show "snd (call lsa self system) = Inr []"
    by (rule call_no_conformations)
next
  assume a: "efunc_protein_ix system = None \<and> coords system \<noteq> [] \<and>
    psel = protein_select_atoms self (selstr system) \<and>
    length (ix psel) = length (positions psel) \<and>
    list_all (\<lambda>i. i < length (protein_positions self)) (ix psel) \<and>
    (\<forall>sub \<in> set (coords system).
       length sub = length (positions psel) \<and>
       lsa_contract (length (positions psel)) (pairwise_sqdist (positions psel) sub)
         (lsa (pairwise_sqdist (positions psel) sub)))"
  then have none: "efunc_protein_ix system = None"
    and ne: "coords system \<noteq> []"
    and psel: "psel = protein_select_atoms self (selstr system)"
    and lp: "length (ix psel) = length (positions psel)"
    and pin: "list_all (\<lambda>i. i < length (protein_positions self)) (ix psel)"
    and all: "\<forall>sub \<in> set (coords system).
       length sub = length (positions psel) \<and>
       lsa_contract (length (positions psel)) (pairwise_sqdist (positions psel) sub)
         (lsa (pairwise_sqdist (positions psel) sub))"
    by blast+
  from match_atoms_permutation [OF ne all] obtain rix where
    m: "match_atoms lsa psel system = Inr (Some rix)"
    and perm: "is_permutation (length (positions psel)) rix"
    by blast
  let ?system1 = "system\<lparr>efunc_protein_ix := Some (ix psel), efunc_residue_ix := Some (Some rix)\<rparr>"
  have c: "call lsa self system =
        (?system1, energy_loop self ?system1 (protein_positions self) [] (coords system))"
    using call_unprepared [OF none, of lsa self "Some rix"] m psel by (simp add: Let_def)
  have len: "length rix = length (ix psel)"
    using perm lp unfolding is_permutation_def by (metis distinct_card card_atLeastLessThan diff_zero)
  have rin: "\<forall>rot \<in> set (coords system). list_all (\<lambda>i. i < length rot) rix"
  proof
    fix rot assume "rot \<in> set (coords system)"
    with all have "length rot = length (positions psel)" by blast
    with perm show "list_all (\<lambda>i. i < length rot) rix"
      unfolding is_permutation_def list_all_iff by simp
  qed
  have "\<exists>Es. snd (call lsa self system) = Inr Es \<and>
          length Es = length (coords system) \<and>
          (\<forall>i < length (coords system).
             Es ! i = potential_energy self
               (substitute (protein_positions self) (ix psel) (map ((!) (coords system ! i)) rix)))"
    using c _ _ len pin rin by (rule energies_of_fitting_indices) simp_all
  with m perm lp show "\<exists>rix Es. match_atoms lsa psel system = Inr (Some rix) \<and>
          is_permutation (length (ix psel)) rix \<and>
          snd (call lsa self system) = Inr Es \<and>
          length Es = length (coords system) \<and>
          (\<forall>i < length (coords system).
             Es ! i = potential_energy self
               (substitute (protein_positions self) (ix psel) (map ((!) (coords system ! i)) rix)))"
    by (simp only:) blast
next
  assume a: "efunc_protein_ix system = Some pix \<and> efunc_residue_ix system = Some (Some rix') \<and>
    length rix' = length pix \<and>
    list_all (\<lambda>i. i < length (protein_positions self)) pix \<and>
    (\<forall>rot \<in> set (coords system). list_all (\<lambda>i. i < length rot) rix')"
  then have pix: "efunc_protein_ix system = Some pix"
    and rix: "efunc_residue_ix system = Some (Some rix')"
    and len: "length rix' = length pix"
    and pin: "list_all (\<lambda>i. i < length (protein_positions self)) pix"
    and rin: "\<forall>rot \<in> set (coords system). list_all (\<lambda>i. i < length rot) rix'"
    by blast+
  show "\<exists>Es. snd (call lsa self system) = Inr Es \<and>
          length Es = length (coords system) \<and>
          (\<forall>i < length (coords system).
             Es ! i = potential_energy self
               (substitute (protein_positions self) pix (map ((!) (coords system ! i)) rix')))"
    using call_prepared [OF pix] pix rix len pin rin by (rule energies_of_fitting_indices)
qed

theorem call_energies_when_indices_fit_witness:
  "snd (call lsa_2x2 example_efunc_weighted example_system) = Inr [18130, 18110]"
proof -
  have none: "efunc_protein_ix example_system = None"
    by (simp add: example_system_def)
  have ne: "coords example_system \<noteq> []"
    by (simp add: example_system_def)
  have psel: "example_reference = protein_select_atoms example_efunc_weighted (selstr example_system)"
    by (simp add: example_efunc_weighted_def)
  have lp: "length (ix example_reference) = length (positions example_reference)"
    by (simp add: example_reference_def)
  have pin: "list_all (\<lambda>i. i < length (protein_positions example_efunc_weighted)) (ix example_reference)"
    by (simp add: example_efunc_weighted_def example_reference_def)
  have two: "length (positions example_reference) = 2"
    by (simp add: example_reference_def)
  have all: "\<forall>sub \<in> set (coords example_system).
       length sub = length (positions example_reference) \<and>
       lsa_contract (length (positions example_reference))
         (pairwise_sqdist (positions example_reference) sub)
         (lsa_2x2 (pairwise_sqdist (positions example_reference) sub))"
    unfolding two using lsa_2x2_contract by (simp add: example_system_def)
  from call_energies_when_indices_fit
    [of example_system lsa_2x2 example_efunc_weighted example_reference] none ne psel lp pin all
  obtain rix Es where
    m: "match_atoms lsa_2x2 example_reference example_system = Inr (Some rix)"
    and r: "snd (call lsa_2x2 example_efunc_weighted example_system) = Inr Es"
    and l: "length Es = length (coords example_system)"
    and n: "\<forall>i < length (coords example_system).
              Es ! i = potential_energy example_efunc_weighted
                (substitute (protein_positions example_efunc_weighted) (ix example_reference)
                   (map ((!) (coords example_system ! i)) rix))"
    by blast
  from m example_match have rix: "rix = [1, 0]" by simp
  have l2: "length Es = 2" using l by (simp add: example_system_def)
  have "Es ! 0 = 18130"
    using n by (simp add: rix example_system_def example_efunc_weighted_def example_reference_def
        substitute_def weighted_energy_def col2_def)
  moreover have "Es ! 1 = 18110"
    using n by (simp add: rix example_system_def example_efunc_weighted_def example_reference_def
        substitute_def weighted_energy_def col2_def)
  ultimately have "Es = [18130, 18110]"
    using l2 by (cases Es; cases "tl Es"; simp)
  with r show ?thesis by simp
qed

text \<open>
  C7. Preparation is lazy and idempotent. A call on a system without
  \<^verbatim>\<open>efunc_protein_ix\<close> leaves the system as \<^verbatim>\<open>prepare_system\<close> leaves it, with both
  index attributes set when \<^verbatim>\<open>match_atoms\<close> returns. A call on a system that has the
  attribute leaves the system unchanged and does not depend on the assignment solver or on
  the protein's selection function. Calling twice leaves the system as calling once does.
\<close>

theorem call_prepares_once:
  "(efunc_protein_ix system = None \<longrightarrow>
      fst (call lsa self system) = fst (prepare_system lsa self system) \<and>
      (\<forall>dmap. match_atoms lsa (protein_select_atoms self (selstr system)) system = Inr dmap \<longrightarrow>
         efunc_protein_ix (fst (call lsa self system)) =
           Some (ix (protein_select_atoms self (selstr system))) \<and>
         efunc_residue_ix (fst (call lsa self system)) = Some dmap))
   \<and> (efunc_protein_ix system \<noteq> None \<longrightarrow>
      fst (call lsa self system) = system \<and>
      call lsa' (self\<lparr>protein_select_atoms := sel'\<rparr>) system = call lsa self system)
   \<and> fst (call lsa self (fst (call lsa self system))) = fst (call lsa self system)"
proof (intro conjI impI allI)
  assume "efunc_protein_ix system = None"
  then show "fst (call lsa self system) = fst (prepare_system lsa self system)"
    by (simp add: call_def split: prod.splits sum.splits)
next
  fix dmap
  assume "efunc_protein_ix system = None"
    and "match_atoms lsa (protein_select_atoms self (selstr system)) system = Inr dmap"
  then have c: "call lsa self system =
     (let system1 = system\<lparr>efunc_protein_ix := Some (ix (protein_select_atoms self (selstr system))),
                            efunc_residue_ix := Some dmap\<rparr>
      in (system1, energy_loop self system1 (protein_positions self) [] (coords system)))"
    by (rule call_unprepared)
  show "efunc_protein_ix (fst (call lsa self system)) =
           Some (ix (protein_select_atoms self (selstr system)))"
    by (simp add: c Let_def)
  show "efunc_residue_ix (fst (call lsa self system)) = Some dmap"
    by (simp add: c Let_def)
next
  assume "efunc_protein_ix system \<noteq> None"
  then show "fst (call lsa self system) = system"
    by (auto simp: call_def)
next
  assume "efunc_protein_ix system \<noteq> None"
  then obtain pix where p: "efunc_protein_ix system = Some pix" by blast
  have same: "energy_loop (self\<lparr>protein_select_atoms := sel'\<rparr>) system p Es rots =
              energy_loop self system p Es rots" for p Es rots
    by (induction rots arbitrary: p Es) (simp_all split: option.splits sum.splits)
  show "call lsa' (self\<lparr>protein_select_atoms := sel'\<rparr>) system = call lsa self system"
    by (simp add: call_prepared [OF p] same)
next
  have set1: "efunc_protein_ix (fst (call lsa self system)) \<noteq> None"
    by (cases "efunc_protein_ix system")
       (auto simp: call_def prepare_system_def Let_def split: sum.splits)
  then show "fst (call lsa self (fst (call lsa self system))) = fst (call lsa self system)"
    by (auto simp: call_def [of lsa self "fst (call lsa self system)"])
qed

theorem call_prepares_once_witness:
  "efunc_protein_ix example_system = None \<and>
   efunc_protein_ix (fst (call lsa_2x2 example_efunc example_system)) = Some [1, 2] \<and>
   efunc_residue_ix (fst (call lsa_2x2 example_efunc example_system)) = Some (Some [1, 0]) \<and>
   fst (call lsa_2x2 example_efunc (fst (call lsa_2x2 example_efunc example_system))) =
     fst (call lsa_2x2 example_efunc example_system)"
proof -
  have none: "efunc_protein_ix example_system = None"
    by (simp add: example_system_def)
  have m: "match_atoms lsa_2x2 (protein_select_atoms example_efunc (selstr example_system))
             example_system = Inr (Some [1, 0])"
    using example_match by (simp add: example_efunc_def)
  have sel: "ix (protein_select_atoms example_efunc (selstr example_system)) = [1, 2]"
    by (simp add: example_efunc_def example_reference_def)
  note once = call_prepares_once [of example_system lsa_2x2 example_efunc lsa_2x2 "\<lambda>sel. example_reference"]
  from once none m have
    "efunc_protein_ix (fst (call lsa_2x2 example_efunc example_system)) =
       Some (ix (protein_select_atoms example_efunc (selstr example_system)))"
    "efunc_residue_ix (fst (call lsa_2x2 example_efunc example_system)) = Some (Some [1, 0])"
    by blast+
  moreover from once have
    "fst (call lsa_2x2 example_efunc (fst (call lsa_2x2 example_efunc example_system))) =
       fst (call lsa_2x2 example_efunc example_system)"
    by blast
  ultimately show ?thesis
    using none by (simp only: sel simp_thms)
qed

section \<open>Properties of the site-pair screen\<close>


lemma map_of_dict_set: "map_of (dict_set d k v) = (map_of d)(k \<mapsto> v)"
  by (induction d) (auto simp: fun_eq_iff)

lemma keys_dict_set:
  "map fst (dict_set d k v) = (if k \<in> fst ` set d then map fst d else map fst d @ [k])"
  by (induction d) (auto simp: image_iff)

lemma distinct_dict_set: "distinct (map fst d) \<Longrightarrow> distinct (map fst (dict_set d k v))"
  by (simp add: keys_dict_set)

lemma set_dict_set: "set (dict_set d k v) \<subseteq> insert (k, v) (set d)"
  by (induction d) auto

lemma fold_dict_set_invariant:
  assumes "distinct (map fst d)"
    and "\<forall>kv \<in> set d. Q (fst kv) (snd kv)"
    and "\<forall>rv \<in> set rvs. Q (fst rv) (g rv)"
  shows "distinct (map fst (fold (\<lambda>rv SLs. dict_set SLs (fst rv) (g rv)) rvs d)) \<and>
         (\<forall>kv \<in> set (fold (\<lambda>rv SLs. dict_set SLs (fst rv) (g rv)) rvs d). Q (fst kv) (snd kv))"
  using assms
proof (induction rvs arbitrary: d)
  case Nil
  then show ?case by simp
next
  case (Cons rv rvs)
  have "distinct (map fst (dict_set d (fst rv) (g rv)))"
    using Cons.prems(1) by (rule distinct_dict_set)
  moreover have "\<forall>kv \<in> set (dict_set d (fst rv) (g rv)). Q (fst kv) (snd kv)"
  proof
    fix kv assume "kv \<in> set (dict_set d (fst rv) (g rv))"
    then have "kv = (fst rv, g rv) \<or> kv \<in> set d"
      using set_dict_set [of d "fst rv" "g rv"] by auto
    then show "Q (fst kv) (snd kv)"
      using Cons.prems(2,3) by auto
  qed
  moreover have "\<forall>rv \<in> set rvs. Q (fst rv) (g rv)"
    using Cons.prems(3) by simp
  ultimately show ?case
    using Cons.IH [of "dict_set d (fst rv) (g rv)"] by simp
qed

lemma selected_entries:
  assumes "rv \<in> set (zip (map (\<lambda>i. resnums ! i) (select_idxs (map gsv resnums)))
                         (map (\<lambda>i. map gsv resnums ! i) (select_idxs (map gsv resnums))))"
  shows "snd rv = gsv (fst rv) \<and> 100 < gsv (fst rv) \<and> fst rv \<in> set resnums"
proof -
  from assms obtain i where i: "i \<in> set (select_idxs (map gsv resnums))"
    and rv: "rv = (resnums ! i, map gsv resnums ! i)"
    by (auto simp: zip_map_map zip_same_conv_map)
  from i have "i < length resnums" and "100 < map gsv resnums ! i"
    by (auto simp: select_idxs_def)
  with rv show ?thesis by simp
qed

lemma build_SLs_invariant:
  "distinct (map fst (build_SLs gsv SL resnums)) \<and>
   (\<forall>kv \<in> set (build_SLs gsv SL resnums). entry_ok gsv SL resnums (fst kv) (snd kv))"
proof -
  let ?rvs = "zip (map (\<lambda>i. resnums ! i) (select_idxs (map gsv resnums)))
                  (map (\<lambda>i. map gsv resnums ! i) (select_idxs (map gsv resnums)))"
  have "\<forall>rv \<in> set ?rvs. entry_ok gsv SL resnums (fst rv) (SL (fst rv), snd rv)"
    using selected_entries [of _ resnums gsv] by (auto simp: entry_ok_def)
  then have "distinct (map fst (fold (\<lambda>rv SLs. dict_set SLs (fst rv) (SL (fst rv), snd rv)) ?rvs [])) \<and>
         (\<forall>kv \<in> set (fold (\<lambda>rv SLs. dict_set SLs (fst rv) (SL (fst rv), snd rv)) ?rvs []).
            entry_ok gsv SL resnums (fst kv) (snd kv))"
    by (intro fold_dict_set_invariant) simp_all
  then show ?thesis
    by (simp add: build_SLs_def Let_def)
qed

lemma dict_get_key:
  assumes "k \<in> fst ` set d"
  shows "\<exists>v. dict_get d k = Inr v \<and> (k, v) \<in> set d"
proof -
  from assms obtain v where "map_of d k = Some v"
    by (cases "map_of d k") (auto simp: map_of_eq_None_iff)
  then show ?thesis
    by (auto simp: dict_get_def dest: map_of_SomeD)
qed

lemma combinations2_members:
  "rr \<in> set (combinations2 xs) \<Longrightarrow> fst rr \<in> set xs \<and> snd rr \<in> set xs"
  by (induction xs) auto

lemma combinations2_distinct:
  "distinct xs \<Longrightarrow> rr \<in> set (combinations2 xs) \<Longrightarrow> fst rr \<noteq> snd rr"
  by (induction xs) (auto dest: combinations2_members)

lemma screen_loop_result:
  assumes keys: "\<forall>perm \<in> set perms. fst perm \<in> fst ` set SLs \<and> snd perm \<in> fst ` set SLs"
    and ok: "\<forall>kv \<in> set SLs. entry_ok gsv SL resnums (fst kv) (snd kv)"
  shows "screen_loop SLs acc perms =
           Inr (fst acc @ filter (\<lambda>rr. \<not> centroid_distance SL rr < 25) perms,
                snd acc @ map (label_score gsv SL) (filter (\<lambda>rr. \<not> centroid_distance SL rr < 25) perms))"
  using keys
proof (induction perms arbitrary: acc)
  case Nil
  then show ?case by simp
next
  case (Cons perm perms)
  from Cons.prems obtain lv1 where g1: "dict_get SLs (fst perm) = Inr lv1"
    and m1: "(fst perm, lv1) \<in> set SLs"
    using dict_get_key [of "fst perm" SLs] by auto
  from Cons.prems obtain lv2 where g2: "dict_get SLs (snd perm) = Inr lv2"
    and m2: "(snd perm, lv2) \<in> set SLs"
    using dict_get_key [of "snd perm" SLs] by auto
  from ok m1 have e1: "entry_ok gsv SL resnums (fst perm) lv1" by fastforce
  from ok m2 have e2: "entry_ok gsv SL resnums (snd perm) lv2" by fastforce
  have l1: "fst lv1 = SL (fst perm)" "snd lv1 = gsv (fst perm)"
    using e1 by (auto simp: entry_ok_def)
  have l2: "fst lv2 = SL (snd perm)" "snd lv2 = gsv (snd perm)"
    using e2 by (auto simp: entry_ok_def)
  have dist: "np_norm (vec_sub (spin_centroid (fst lv1)) (spin_centroid (fst lv2))) =
              centroid_distance SL perm"
    by (simp add: centroid_distance_def l1 l2)
  have score: "centroid_distance SL perm / real_of_int (site (fst lv2) - site (fst lv1))
                 / (min (snd lv1) (snd lv2)) powr (1 / 3) = label_score gsv SL perm"
    by (simp add: label_score_def l1 l2)
  have rest: "\<forall>perm \<in> set perms. fst perm \<in> fst ` set SLs \<and> snd perm \<in> fst ` set SLs"
    using Cons.prems by simp
  have step: "screen_loop SLs acc (perm # perms) =
      (if centroid_distance SL perm < 25 then screen_loop SLs acc perms
       else screen_loop SLs (fst acc @ [perm], snd acc @ [label_score gsv SL perm]) perms)"
    by (simp only: screen_loop.simps g1 g2 sum.case Let_def dist score)
  show ?case
  proof (cases "centroid_distance SL perm < 25")
    case True
    then show ?thesis
      using Cons.IH [OF rest, of acc] unfolding step by simp
  next
    case False
    then show ?thesis
      using Cons.IH [OF rest, of "(fst acc @ [perm], snd acc @ [label_score gsv SL perm])"]
      unfolding step by simp
  qed
qed

lemma screened_pairs:
  "screen_loop (build_SLs gsv SL resnums) ([], [])
     (combinations2 (map fst (build_SLs gsv SL resnums))) =
   Inr (filter (\<lambda>rr. \<not> centroid_distance SL rr < 25)
          (combinations2 (map fst (build_SLs gsv SL resnums))),
        map (label_score gsv SL)
          (filter (\<lambda>rr. \<not> centroid_distance SL rr < 25)
             (combinations2 (map fst (build_SLs gsv SL resnums)))))"
proof -
  let ?SLs = "build_SLs gsv SL resnums"
  have ok: "\<forall>kv \<in> set ?SLs. entry_ok gsv SL resnums (fst kv) (snd kv)"
    using build_SLs_invariant [of gsv SL resnums] by blast
  have keys: "\<forall>perm \<in> set (combinations2 (map fst ?SLs)).
                fst perm \<in> fst ` set ?SLs \<and> snd perm \<in> fst ` set ?SLs"
    using combinations2_members [of _ "map fst ?SLs"] by auto
  show ?thesis
    using screen_loop_result [OF keys ok, of "([], [])"] by simp
qed

lemma keys_in_resnums:
  "rr \<in> set (combinations2 (map fst (build_SLs gsv SL resnums))) \<Longrightarrow>
   fst rr \<in> set resnums \<and> snd rr \<in> set resnums"
proof -
  assume "rr \<in> set (combinations2 (map fst (build_SLs gsv SL resnums)))"
  then have "fst rr \<in> fst ` set (build_SLs gsv SL resnums)"
    and "snd rr \<in> fst ` set (build_SLs gsv SL resnums)"
    using combinations2_members [of rr "map fst (build_SLs gsv SL resnums)"] by auto
  then obtain kv1 kv2 where "kv1 \<in> set (build_SLs gsv SL resnums)" "fst kv1 = fst rr"
    "kv2 \<in> set (build_SLs gsv SL resnums)" "fst kv2 = snd rr"
    by auto
  then show ?thesis
    using build_SLs_invariant [of gsv SL resnums] by (auto simp: entry_ok_def)
qed

lemma argmin_from_least:
  assumes "drop i zs = xs" and "bi < i" and "i \<le> length zs" and "zs ! bi = best"
    and "\<forall>j < i. best \<le> zs ! j"
  shows "argmin_from best bi i xs < length zs \<and>
         (\<forall>j < length zs. zs ! argmin_from best bi i xs \<le> zs ! j)"
  using assms
proof (induction xs arbitrary: best bi i)
  case Nil
  then have "length zs = i" by simp
  with Nil show ?case by simp
next
  case (Cons x xs)
  from Cons.prems(1) have i: "i < length zs"
    by (metis drop_all leI list.distinct(1))
  from Cons.prems(1) i have x: "zs ! i = x"
    by (metis Cons_nth_drop_Suc list.inject)
  from Cons.prems(1) i have d: "drop (Suc i) zs = xs"
    by (metis Cons_nth_drop_Suc list.inject)
  show ?case
  proof (cases "x < best")
    case True
    have "\<forall>j < Suc i. x \<le> zs ! j"
    proof (intro allI impI)
      fix j assume "j < Suc i"
      then have "j < i \<or> j = i" by linarith
      then show "x \<le> zs ! j"
        using Cons.prems(5) True x by fastforce
    qed
    then show ?thesis
      using Cons.IH [of "Suc i" i x] d i x True by simp
  next
    case False
    have "\<forall>j < Suc i. best \<le> zs ! j"
    proof (intro allI impI)
      fix j assume "j < Suc i"
      then have "j < i \<or> j = i" by linarith
      then show "best \<le> zs ! j"
        using Cons.prems(5) False x by fastforce
    qed
    then show ?thesis
      using Cons.IH [of "Suc i" bi best] d i Cons.prems(2,4) False by simp
  qed
qed

lemma np_argmin_least:
  assumes "xs \<noteq> []"
  shows "\<exists>idx. np_argmin xs = Inr idx \<and> idx < length xs \<and> (\<forall>j < length xs. xs ! idx \<le> xs ! j)"
proof -
  from assms obtain x xs' where xs: "xs = x # xs'" by (cases xs) auto
  have "argmin_from x 0 1 xs' < length xs \<and>
        (\<forall>j < length xs. xs ! argmin_from x 0 1 xs' \<le> xs ! j)"
    by (rule argmin_from_least) (simp_all add: xs)
  then show ?thesis
    by (simp add: np_argmin_def xs)
qed

lemma np_norm_on_axis: "np_norm (x, 0, 0) = \<bar>x\<bar>"
  by (simp add: np_norm_def)

lemma cube_root_125: "(125 :: real) powr (1 / 3) = 5"
proof -
  have "(125 :: real) = 5 powr 3" by simp
  then have "(125 :: real) powr (1 / 3) = (5 powr 3) powr (1 / 3)" by simp
  also have "\<dots> = 5 powr (3 * (1 / 3))" by (rule powr_powr)
  also have "\<dots> = 5" by simp
  finally show ?thesis .
qed

text \<open>
  C5. With labels whose \<^verbatim>\<open>site\<close> is the residue they were built at: every pair appended to
  \<^verbatim>\<open>pairs\<close> consists of two different residues whose site volumes both exceed 100 and
  whose centroids are at least 25 apart; \<^verbatim>\<open>scores\<close> holds the score of each pair; and
  when there is a pair, the reported pair is one of \<^verbatim>\<open>pairs\<close> whose score is least
  (with no pair, \<^verbatim>\<open>np.argmin\<close> raises).
\<close>

theorem site_pair_screen_pairs_and_best:
  assumes sites: "\<forall>r \<in> set resnums. site (SL r) = r"
  shows "\<exists>pairs scores.
     screen_loop (build_SLs gsv SL resnums) ([], [])
       (combinations2 (map fst (build_SLs gsv SL resnums))) = Inr (pairs, scores) \<and>
     (\<forall>rr \<in> set pairs. 100 < gsv (fst rr) \<and> 100 < gsv (snd rr) \<and>
         25 \<le> centroid_distance SL rr \<and> fst rr \<noteq> snd rr) \<and>
     scores = map (pair_score gsv SL) pairs \<and>
     (pairs = [] \<longrightarrow> site_pair_screen gsv SL resnums = Inl ValueError) \<and>
     (pairs \<noteq> [] \<longrightarrow>
        (\<exists>best \<in> set pairs. site_pair_screen gsv SL resnums = Inr (pairs, scores, best) \<and>
           (\<forall>rr \<in> set pairs. pair_score gsv SL best \<le> pair_score gsv SL rr)))"
proof -
  let ?SLs = "build_SLs gsv SL resnums"
  let ?perms = "combinations2 (map fst ?SLs)"
  let ?pairs = "filter (\<lambda>rr. \<not> centroid_distance SL rr < 25) ?perms"
  let ?scores = "map (pair_score gsv SL) ?pairs"
  have dist: "distinct (map fst ?SLs)"
    and ok: "\<forall>kv \<in> set ?SLs. entry_ok gsv SL resnums (fst kv) (snd kv)"
    using build_SLs_invariant [of gsv SL resnums] by blast+
  have keys: "\<forall>perm \<in> set ?perms. fst perm \<in> fst ` set ?SLs \<and> snd perm \<in> fst ` set ?SLs"
    using combinations2_members [of _ "map fst ?SLs"] by auto
  have "map (label_score gsv SL) ?pairs = ?scores"
  proof (rule map_cong [OF refl])
    fix rr assume "rr \<in> set ?pairs"
    then have "rr \<in> set ?perms" by simp
    then have "fst rr \<in> set resnums" "snd rr \<in> set resnums"
      using keys_in_resnums [of rr gsv SL resnums] by simp_all
    with sites show "label_score gsv SL rr = pair_score gsv SL rr"
      by (simp add: label_score_def pair_score_def)
  qed
  then have loop: "screen_loop ?SLs ([], []) ?perms = Inr (?pairs, ?scores)"
    using screened_pairs [of gsv SL resnums] by simp
  have vol: "100 < gsv r" if "r \<in> fst ` set ?SLs" for r
  proof -
    from that obtain kv where "kv \<in> set ?SLs" "fst kv = r" by auto
    with ok show ?thesis by (auto simp: entry_ok_def)
  qed
  have props: "\<forall>rr \<in> set ?pairs. 100 < gsv (fst rr) \<and> 100 < gsv (snd rr) \<and>
         25 \<le> centroid_distance SL rr \<and> fst rr \<noteq> snd rr"
  proof
    fix rr assume "rr \<in> set ?pairs"
    then have m: "rr \<in> set ?perms" and d: "\<not> centroid_distance SL rr < 25" by simp_all
    from m keys have "fst rr \<in> fst ` set ?SLs" "snd rr \<in> fst ` set ?SLs" by blast+
    then have "100 < gsv (fst rr)" "100 < gsv (snd rr)" by (simp_all add: vol)
    moreover from dist m have "fst rr \<noteq> snd rr" by (rule combinations2_distinct)
    ultimately show "100 < gsv (fst rr) \<and> 100 < gsv (snd rr) \<and>
         25 \<le> centroid_distance SL rr \<and> fst rr \<noteq> snd rr"
      using d by simp
  qed
  have empty: "site_pair_screen gsv SL resnums = Inl ValueError" if "?pairs = []"
    using that loop by (simp add: site_pair_screen_def Let_def best_pair_def np_argmin_def)
  have best: "\<exists>best \<in> set ?pairs. site_pair_screen gsv SL resnums = Inr (?pairs, ?scores, best) \<and>
           (\<forall>rr \<in> set ?pairs. pair_score gsv SL best \<le> pair_score gsv SL rr)"
    if ne: "?pairs \<noteq> []"
  proof -
    from ne have "?scores \<noteq> []" by simp
    from np_argmin_least [OF this] obtain idx where
      a: "np_argmin ?scores = Inr idx" and i: "idx < length ?scores"
      and l: "\<forall>j < length ?scores. ?scores ! idx \<le> ?scores ! j"
      by blast
    from i have i': "idx < length ?pairs" by simp
    have r: "site_pair_screen gsv SL resnums = Inr (?pairs, ?scores, ?pairs ! idx)"
      using loop a i' by (simp add: site_pair_screen_def Let_def best_pair_def)
    have "\<forall>rr \<in> set ?pairs. pair_score gsv SL (?pairs ! idx) \<le> pair_score gsv SL rr"
    proof
      fix rr assume "rr \<in> set ?pairs"
      then obtain j where j: "j < length ?pairs" "?pairs ! j = rr"
        unfolding in_set_conv_nth by blast
      from j(1) have "j < length ?scores" by simp
      with l have "?scores ! idx \<le> ?scores ! j" by blast
      then have "pair_score gsv SL (?pairs ! idx) \<le> pair_score gsv SL (?pairs ! j)"
        using i' j(1) by (simp only: nth_map)
      then show "pair_score gsv SL (?pairs ! idx) \<le> pair_score gsv SL rr"
        by (simp only: j(2))
    qed
    with r i' show ?thesis
      using nth_mem [OF i'] by blast
  qed
  show ?thesis
    using loop props empty best by blast
qed

lemma example_SLs:
  "build_SLs example_volume example_label example_resnums =
     [(4, example_label 4, 125), (60, example_label 60, 125), (159, example_label 159, 125)]"
  by (simp add: build_SLs_def select_idxs_def example_resnums_def example_volume_def)

lemma example_distances:
  "centroid_distance example_label (4, 60) = 30"
  "centroid_distance example_label (4, 159) = 40"
  "centroid_distance example_label (60, 159) = 10"
  by (simp_all add: centroid_distance_def example_label_def vec_sub_def np_norm_on_axis)

lemma example_loop:
  "screen_loop (build_SLs example_volume example_label example_resnums) ([], [])
     (combinations2 (map fst (build_SLs example_volume example_label example_resnums))) =
   Inr ([(4, 60), (4, 159)], [3 / 28, 8 / 155])"
proof -
  have d: "np_norm (vec_sub (spin_centroid (example_label a)) (spin_centroid (example_label b))) =
           centroid_distance example_label (a, b)" for a b
    by (simp add: centroid_distance_def)
  have s: "site (example_label r) = r" for r
    by (simp add: example_label_def)
  show ?thesis
    by (simp add: example_SLs dict_get_def d s example_distances cube_root_125)
qed

theorem site_pair_screen_pairs_and_best_witness:
  "site_pair_screen example_volume example_label example_resnums =
     Inr ([(4, 60), (4, 159)], [3 / 28, 8 / 155], (4, 159))"
proof -
  have sites: "\<forall>r \<in> set example_resnums. site (example_label r) = r"
    by (simp add: example_label_def)
  from site_pair_screen_pairs_and_best [OF sites, of example_volume] obtain pairs scores where
    loop: "screen_loop (build_SLs example_volume example_label example_resnums) ([], [])
       (combinations2 (map fst (build_SLs example_volume example_label example_resnums)))
         = Inr (pairs, scores)"
    and sc: "scores = map (pair_score example_volume example_label) pairs"
    and best: "pairs \<noteq> [] \<longrightarrow>
        (\<exists>best \<in> set pairs.
           site_pair_screen example_volume example_label example_resnums = Inr (pairs, scores, best) \<and>
           (\<forall>rr \<in> set pairs. pair_score example_volume example_label best
              \<le> pair_score example_volume example_label rr))"
    by blast
  from loop have p: "pairs = [(4, 60), (4, 159)]" and s: "scores = [3 / 28, 8 / 155]"
    by (simp_all add: example_loop)
  from sc p s have v: "pair_score example_volume example_label (4, 60) = 3 / 28"
    "pair_score example_volume example_label (4, 159) = 8 / 155"
    by simp_all
  from best p obtain b where b: "b = (4, 60) \<or> b = (4, 159)"
    and r: "site_pair_screen example_volume example_label example_resnums = Inr (pairs, scores, b)"
    and least: "pair_score example_volume example_label b
                  \<le> pair_score example_volume example_label (4, 159)"
    by auto
  from b least v have "b = (4, 159)" by auto
  with r p s show ?thesis by simp
qed

section \<open>The attributes through which the notebooks read label ensembles\<close>



section \<open>Properties of the calls of save\<close>

text \<open>
  C2 (as stated). The call of \<^verbatim>\<open>xl.save\<close> in the site-pair screen does not pass an output
  path first: its first argument is a label.
\<close>

theorem save_path_first_counterexample:
  "\<not> path_then_objects
       (save_args_site_pair_screen (example_label 4) (example_label 159) example_reference)"
  by (simp add: save_args_site_pair_screen_def)

text \<open>
  C2 (amended). Every call of \<^verbatim>\<open>xl.save\<close> passes a variadic list of label and protein
  objects; the calls of the membrane-docking notebook and of \<^verbatim>\<open>OpenMMEnergyFunc.__init__\<close>
  pass an output path before them, the calls of the site-pair screen and of the
  arbitrary-labels notebook pass no path.
\<close>

theorem save_calls_shapes:
  "path_then_objects (save_args_membrane_docking label_list CPLA_C2) \<and>
   path_then_objects (save_args_openmm tempdir protein) \<and>
   objects_only (save_args_site_pair_screen SL1 SL2 t4l) \<and>
   objects_only (save_args_arbitrary_labels labels prot)"
  by (simp add: save_args_membrane_docking_def save_args_openmm_def
      save_args_site_pair_screen_def save_args_arbitrary_labels_def objects_only_def
      list_all_iff)

section \<open>Name binding: the arbitrary-labels notebook\<close>

text \<open>
  C3. Run from the top, ``Arbitrary molecular labels'' stops in its fourth code cell:
  \<^verbatim>\<open>P = xl.distance_distribution(*labels, r)\<close> reads \<^verbatim>\<open>labels\<close>, which no earlier cell
  binds, and raises \<^verbatim>\<open>NameError\<close>; were \<^verbatim>\<open>labels\<close> bound, the last statement would raise
  for \<^verbatim>\<open>prot\<close>. The site-pair screen and the membrane-docking notebook bind every name
  before it is read.
\<close>

theorem arbitrary_labels_notebook_name_error:
  "run_notebook builtins arbitrary_labels_notebook = Inl (NameError ''labels'') \<and>
   run_notebook (''labels'' # builtins) arbitrary_labels_notebook = Inl (NameError ''prot'') \<and>
   isl (run_notebook builtins site_pair_screen_notebook) = False \<and>
   isl (run_notebook builtins membrane_docking_notebook) = False"
  by (simp add: run_notebook_def builtins_def arbitrary_labels_notebook_def
      site_pair_screen_notebook_def membrane_docking_notebook_def)

text \<open>
  C9. The distance-distribution computation of ``Arbitrary molecular labels'' returns no
  array: the cells before it run, and the cell
  \<^verbatim>\<open>r = np.linspace(15, 100, 256); P = xl.distance_distribution(*labels, r)\<close> raises
  \<^verbatim>\<open>NameError\<close> for \<^verbatim>\<open>labels\<close> before the toolkit is called, so that \<^verbatim>\<open>P\<close> is never bound.
  In the site-pair screen the computation is reached with \<^verbatim>\<open>SL1\<close>, \<^verbatim>\<open>SL2\<close> and \<^verbatim>\<open>r\<close> bound
  and binds \<^verbatim>\<open>P\<close>.
\<close>

theorem distance_distribution_cell_name_error:
  "isl (run_notebook builtins (take 3 arbitrary_labels_notebook)) = False \<and>
   run_notebook builtins (take 4 arbitrary_labels_notebook) = Inl (NameError ''labels'') \<and>
   map_sum id (\<lambda>env. ''P'' \<in> set env) (run_notebook builtins site_pair_screen_notebook) = Inr True"
  by (simp add: run_notebook_def builtins_def arbitrary_labels_notebook_def
      site_pair_screen_notebook_def)

section \<open>Exceptions and cleanup in the constructor\<close>




section \<open>Propagation of exceptions\<close>





















end
